theory Spec2Isabelle
  imports Complex_Main
begin

section \<open>Python values, errors and the external primitives\<close>

text \<open>
  The module \<^verbatim>\<open>getImages/ossos_scripts/mpc.py\<close> is Python 2. Exceptions are values of
  the type \<open>error\<close>; a function that can raise returns \<open>error + 'a\<close> with \<open>Inl\<close> the
  exception. \<open>MPCFieldFormatError\<close> carries the name of the field it was raised for.
\<close>

datatype error =
    ValueError
  | IndexError
  | TypeError
  | StructError
  | KeyError
  | MPCFieldFormatError string

text \<open>
  The dynamically typed arguments that reach the setters of the module: \<open>None\<close>, a
  \<open>bool\<close>, an \<open>int\<close>, a \<open>float\<close> or a \<open>str\<close>. A float is modelled by the rational it
  denotes (the not-a-number and the infinities are left out).
\<close>

datatype pyval =
    PyNone
  | PyBool bool
  | PyInt int
  | PyFloat rat
  | PyStr string

text \<open>Python's \<^verbatim>\<open>==\<close> on these values: numbers (booleans among them) compare by
  value, strings with strings, \<open>None\<close> with \<open>None\<close>; values of different kinds differ.\<close>

fun py_num :: "pyval \<Rightarrow> rat option" where
  "py_num (PyBool b) = Some (if b then 1 else 0)"
| "py_num (PyInt i) = Some (of_int i)"
| "py_num (PyFloat r) = Some r"
| "py_num _ = None"

fun py_eq :: "pyval \<Rightarrow> pyval \<Rightarrow> bool" where
  "py_eq PyNone PyNone = True"
| "py_eq (PyStr s) (PyStr t) = (s = t)"
| "py_eq a b = (case (py_num a, py_num b) of (Some x, Some y) \<Rightarrow> x = y | _ \<Rightarrow> False)"

text \<open>\<^verbatim>\<open>x in [v1, v2, ...]\<close> on a list.\<close>

definition py_in :: "pyval \<Rightarrow> pyval list \<Rightarrow> bool" where
  "py_in x vs = list_ex (py_eq x) vs"

text \<open>\<^verbatim>\<open>bool(x)\<close>.\<close>

fun py_bool :: "pyval \<Rightarrow> bool" where
  "py_bool PyNone = False"
| "py_bool (PyBool b) = b"
| "py_bool (PyInt i) = (i \<noteq> 0)"
| "py_bool (PyFloat r) = (r \<noteq> 0)"
| "py_bool (PyStr s) = (s \<noteq> [])"

text \<open>
  The module calls into the interpreter's number conversion and into the astropy
  library for dates and coordinates. That code is not in the repository. The class
  \<^verbatim>\<open>TimeMPC\<close> of the module is a format of astropy's \<^verbatim>\<open>Time\<close>: it splits the
  date string with \<^verbatim>\<open>time.strptime\<close> and hands the parts, computed in floating
  point, to \<^verbatim>\<open>sofa_time.dtf_jd\<close>, and it prints what \<^verbatim>\<open>sofa_time.jd_dtf\<close> returns;
  the model takes the result of the whole call, \<^verbatim>\<open>Time(s, format='mpc', ...)\<close> and
  \<^verbatim>\<open>str(t)\<close>, as primitives. All primitives are one parameter \<open>X\<close>, and every
  theorem that is stated for an arbitrary \<open>X\<close> holds whatever they compute.

  \<^item> \<open>float_of_str s\<close>: \<^verbatim>\<open>float(s)\<close> on a string, \<open>None\<close> for \<^verbatim>\<open>ValueError\<close>;
  \<^item> \<open>format_f p x\<close>: \<^verbatim>\<open>'{:.pf}'.format(x)\<close>, \<open>repr_float x\<close>: \<^verbatim>\<open>str(x)\<close>;
  \<^item> \<open>Time_mpc s p\<close>: \<^verbatim>\<open>Time(s, format='mpc', scale='utc', precision=p)\<close>, \<open>None\<close> when
    it raises; \<open>Time_str t\<close>: \<^verbatim>\<open>str(t)\<close>;
  \<^item> \<open>ICRS_degrees\<close>, \<open>ICRS_sexagesimal\<close>: the two calls of \<^verbatim>\<open>ICRSCoordinates\<close>,
    \<open>None\<close> when they raise; \<open>ra_format c p\<close>, \<open>dec_format c p\<close>: the two
    \<^verbatim>\<open>format\<close> calls of the properties \<^verbatim>\<open>ra\<close> and \<^verbatim>\<open>dec\<close>.

  A \<open>Time\<close> is read only through \<^verbatim>\<open>.jd\<close> and \<^verbatim>\<open>.mjd\<close> (two floats computed by
  astropy, kept as two independent fields so that no rounding behaviour is assumed)
  and its precision.
\<close>

record Time =
  jd :: rat
  mjd :: rat
  time_precision :: nat

record ICRS =
  ra_deg :: rat
  dec_deg :: rat

record prims =
  float_of_str :: "string \<Rightarrow> rat option"
  format_f :: "nat \<Rightarrow> rat \<Rightarrow> string"
  repr_float :: "rat \<Rightarrow> string"
  Time_mpc :: "string \<Rightarrow> nat \<Rightarrow> Time option"
  Time_str :: "Time \<Rightarrow> string"
  ICRS_degrees :: "rat \<Rightarrow> rat \<Rightarrow> ICRS option"
  ICRS_sexagesimal :: "string \<Rightarrow> string \<Rightarrow> ICRS option"
  ra_format :: "ICRS \<Rightarrow> nat \<Rightarrow> string"
  dec_format :: "ICRS \<Rightarrow> nat \<Rightarrow> string"

text \<open>\<^verbatim>\<open>float(x)\<close>: \<^verbatim>\<open>TypeError\<close> on \<open>None\<close>, \<^verbatim>\<open>ValueError\<close> on a string that is
  not a number.\<close>

fun py_float :: "prims \<Rightarrow> pyval \<Rightarrow> error + rat" where
  "py_float X PyNone = Inl TypeError"
| "py_float X (PyBool b) = Inr (if b then 1 else 0)"
| "py_float X (PyInt i) = Inr (of_int i)"
| "py_float X (PyFloat r) = Inr r"
| "py_float X (PyStr s) = (case float_of_str X s of None \<Rightarrow> Inl ValueError | Some r \<Rightarrow> Inr r)"

section \<open>Strings\<close>

text \<open>The string methods the module uses. Python 2 strings are byte strings, as
  \<open>string\<close> is here. Whitespace is what \<^verbatim>\<open>strip()\<close> and \<^verbatim>\<open>split()\<close> without an
  argument remove: space, tab, line feed, vertical tab, form feed, carriage return.\<close>

definition is_space :: "char \<Rightarrow> bool" where
  "is_space c \<longleftrightarrow> c \<in> set [CHR '' '', CHR 0x09, CHR 0x0A, CHR 0x0B, CHR 0x0C, CHR 0x0D]"

definition is_digit :: "char \<Rightarrow> bool" where
  "is_digit c \<longleftrightarrow> c \<in> set ''0123456789''"

definition lstrip_by :: "(char \<Rightarrow> bool) \<Rightarrow> string \<Rightarrow> string" where
  "lstrip_by P s = dropWhile P s"

definition rstrip_by :: "(char \<Rightarrow> bool) \<Rightarrow> string \<Rightarrow> string" where
  "rstrip_by P s = rev (dropWhile P (rev s))"

definition strip_by :: "(char \<Rightarrow> bool) \<Rightarrow> string \<Rightarrow> string" where
  "strip_by P s = rstrip_by P (lstrip_by P s)"

text \<open>\<^verbatim>\<open>s.strip()\<close> and \<^verbatim>\<open>s.strip(c)\<close> for a one-character argument.\<close>

definition strip :: "string \<Rightarrow> string" where
  "strip s = strip_by is_space s"

definition strip_char :: "char \<Rightarrow> string \<Rightarrow> string" where
  "strip_char c s = strip_by (\<lambda>a. a = c) s"

text \<open>\<^verbatim>\<open>s.split(c)\<close>: the pieces between the occurrences of \<open>c\<close>, never an empty list.\<close>

fun split_on :: "char \<Rightarrow> string \<Rightarrow> string list" where
  "split_on c [] = [[]]"
| "split_on c (a # s) =
     (if a = c then [] # split_on c s
      else (case split_on c s of [] \<Rightarrow> [[a]] | w # ws \<Rightarrow> (a # w) # ws))"

text \<open>\<^verbatim>\<open>s.split()\<close>: the maximal runs of characters that are not whitespace.\<close>

fun split_ws_from :: "string \<Rightarrow> string \<Rightarrow> string list" where
  "split_ws_from w [] = (if w = [] then [] else [w])"
| "split_ws_from w (a # s) =
     (if is_space a then (if w = [] then split_ws_from [] s else w # split_ws_from [] s)
      else split_ws_from (w @ [a]) s)"

definition split_ws :: "string \<Rightarrow> string list" where
  "split_ws s = split_ws_from [] s"

text \<open>\<^verbatim>\<open>sep.join(words)\<close>.\<close>

fun join :: "string \<Rightarrow> string list \<Rightarrow> string" where
  "join sep [] = []"
| "join sep [w] = w"
| "join sep (w # ws) = w @ sep @ join sep ws"

text \<open>\<^verbatim>\<open>s.rfind(c)\<close> for a character: the last index of \<open>c\<close>, \<open>None\<close> for \<open>-1\<close>.\<close>

definition rfind :: "char \<Rightarrow> string \<Rightarrow> nat option" where
  "rfind c s =
     (if c \<in> set s then Some (length s - 1 - length (takeWhile (\<lambda>a. a \<noteq> c) (rev s)))
      else None)"

text \<open>\<^verbatim>\<open>s.isdigit()\<close>.\<close>

definition isdigit :: "string \<Rightarrow> bool" where
  "isdigit s \<longleftrightarrow> s \<noteq> [] \<and> list_all is_digit s"

text \<open>\<^verbatim>\<open>t in s\<close> for two strings: \<open>t\<close> occurs in \<open>s\<close> as a substring.\<close>

fun is_prefix :: "string \<Rightarrow> string \<Rightarrow> bool" where
  "is_prefix [] s = True"
| "is_prefix (a # t) [] = False"
| "is_prefix (a # t) (b # s) = (a = b \<and> is_prefix t s)"

fun str_contains :: "string \<Rightarrow> string \<Rightarrow> bool" where
  "str_contains [] t = (t = [])"
| "str_contains (a # s) t = (is_prefix t (a # s) \<or> str_contains s t)"

text \<open>The value of a string of decimal digits, and \<^verbatim>\<open>int(s)\<close> on a string
  (surrounding whitespace and one sign are accepted), \<open>None\<close> for \<^verbatim>\<open>ValueError\<close>.\<close>

definition digit_val :: "char \<Rightarrow> nat" where
  "digit_val c = of_char c - 48"

definition digits_val :: "string \<Rightarrow> nat" where
  "digits_val s = foldl (\<lambda>n c. 10 * n + digit_val c) 0 s"

definition int_of_str :: "string \<Rightarrow> int option" where
  "int_of_str s =
     (case strip s of
        [] \<Rightarrow> None
      | c # ds \<Rightarrow>
          if c = CHR ''-'' then (if isdigit ds then Some (- int (digits_val ds)) else None)
          else if c = CHR ''+'' then (if isdigit ds then Some (int (digits_val ds)) else None)
          else if isdigit (c # ds) then Some (int (digits_val (c # ds))) else None)"

text \<open>\<^verbatim>\<open>int(x)\<close>; a float is truncated towards zero.\<close>

fun py_int :: "pyval \<Rightarrow> error + int" where
  "py_int PyNone = Inl TypeError"
| "py_int (PyBool b) = Inr (if b then 1 else 0)"
| "py_int (PyInt i) = Inr i"
| "py_int (PyFloat r) = Inr (if 0 \<le> r then \<lfloor>r\<rfloor> else \<lceil>r\<rceil>)"
| "py_int (PyStr s) = (case int_of_str s of None \<Rightarrow> Inl ValueError | Some i \<Rightarrow> Inr i)"

text \<open>The decimal digits of a natural number and of an integer (\<^verbatim>\<open>'{:d}'.format(i)\<close>),
  and padding with blanks to a width, on the right (\<^verbatim>\<open>'{:<n}'\<close>, the default for
  strings) and on the left (\<^verbatim>\<open>'{:>n}'\<close>, the default for numbers).\<close>

function string_of_nat :: "nat \<Rightarrow> string" where
  "string_of_nat n =
     (if n < 10 then [char_of (48 + n)]
      else string_of_nat (n div 10) @ [char_of (48 + n mod 10)])"
  by pat_completeness auto
termination
  by (relation "measure id") auto

declare string_of_nat.simps [simp del]

definition string_of_int :: "int \<Rightarrow> string" where
  "string_of_int i = (if i < 0 then ''-'' @ string_of_nat (nat (- i)) else string_of_nat (nat i))"

definition ljust :: "nat \<Rightarrow> string \<Rightarrow> string" where
  "ljust n s = s @ replicate (n - length s) (CHR '' '')"

definition rjust :: "nat \<Rightarrow> string \<Rightarrow> string" where
  "rjust n s = replicate (n - length s) (CHR '' '') @ s"

text \<open>\<^verbatim>\<open>struct.unpack\<close> for a format of \<^verbatim>\<open>Ns\<close> and \<^verbatim>\<open>Nx\<close> items: the string must
  have the length of the format; each \<open>s\<close> item gives a field, each \<open>x\<close> item is
  skipped. A format is a list of (is it a field, width).\<close>

fun unpack_fields :: "(bool \<times> nat) list \<Rightarrow> string \<Rightarrow> string list" where
  "unpack_fields [] s = []"
| "unpack_fields ((keep, n) # fmt) s =
     (if keep then take n s # unpack_fields fmt (drop n s) else unpack_fields fmt (drop n s))"

definition struct_unpack :: "(bool \<times> nat) list \<Rightarrow> string \<Rightarrow> error + string list" where
  "struct_unpack fmt s =
     (if length s \<noteq> sum_list (map snd fmt) then Inl StructError
      else Inr (unpack_fields fmt s))"

text \<open>\<^verbatim>\<open>compute_precision\<close>: the number of characters after the last \<open>.\<close>\<close>

definition compute_precision :: "string \<Rightarrow> nat" where
  "compute_precision coord =
     (let coord = strip_char (CHR '' '') coord in
      case rfind (CHR ''.'') coord of
        None \<Rightarrow> 0
      | Some idx \<Rightarrow> length coord - idx - 1)"

section \<open>TNOdbFlags\<close>

text \<open>\<^verbatim>\<open>re.match("[10]{12}", flags)\<close>: the match is anchored at the start only, so
  the first twelve characters must be binary digits and anything may follow.\<close>

definition match_flags :: "string \<Rightarrow> bool" where
  "match_flags s \<longleftrightarrow>
     12 \<le> length s \<and> list_all (\<lambda>c. c = CHR ''1'' \<or> c = CHR ''0'') (take 12 s)"

record TNOdbFlags =
  flags_str :: string

definition TNOdbFlags_init :: "string \<Rightarrow> error + TNOdbFlags" where
  "TNOdbFlags_init flags =
     (if \<not> match_flags flags then Inl ValueError else Inr \<lparr>flags_str = flags\<rparr>)"

text \<open>The getter \<^verbatim>\<open>return self.__flags[0] == 1\<close> compares a one-character string
  with the integer 1.\<close>

definition TNOdbFlags_is_discovery :: "TNOdbFlags \<Rightarrow> error + bool" where
  "TNOdbFlags_is_discovery f =
     (case flags_str f of
        [] \<Rightarrow> Inl IndexError
      | c # _ \<Rightarrow> Inr (py_eq (PyStr [c]) (PyInt 1)))"

text \<open>The setter's body is the expression statement
  \<^verbatim>\<open>self.__flags[0] == bool(is_discovery) and "1" or "0"\<close>: it reads the first
  character, compares, and stores nothing.\<close>

definition TNOdbFlags_set_is_discovery :: "pyval \<Rightarrow> TNOdbFlags \<Rightarrow> error + TNOdbFlags" where
  "TNOdbFlags_set_is_discovery v f =
     (case flags_str f of
        [] \<Rightarrow> Inl IndexError
      | c # _ \<Rightarrow>
          (let unused = (if py_eq (PyStr [c]) (PyBool (py_bool v)) then ''1'' else ''0'')
           in Inr f))"

section \<open>OSSOSComment and its subclasses\<close>

text \<open>
  One record holds the attributes of an \<^verbatim>\<open>OSSOSComment\<close>; \<open>cls\<close> is the class of the
  object (\<^verbatim>\<open>isinstance(c, OSSOSComment)\<close> holds for every class, since the other four
  derive from it). \<open>c_index\<close> and \<open>c_date\<close> are the two attributes that only
  \<^verbatim>\<open>TNOdbComment\<close> sets.
\<close>

datatype comment_class = OSSOS | CFEPS | TNOdb | RealOSSOS | MPCC

record OSSOSComment =
  cls :: comment_class
  c_version :: string
  c_frame :: "string option"
  c_source_name :: "string option"
  c_photometry_note :: string
  c_mpc_note :: string
  c_x :: "rat option"
  c_y :: "rat option"
  c_mag :: "rat option"
  c_mag_uncertainty :: "rat option"
  c_plate_uncertainty :: rat
  c_astrometric_level :: int
  c_comment :: string
  c_flags :: "string option"
  c_index :: "string option"
  c_date :: "string option"

text \<open>The setter of \<^verbatim>\<open>OSSOSComment.mag\<close> (the attribute \<^verbatim>\<open>_mag\<close> is \<open>c_mag\<close> here).
  The bare \<^verbatim>\<open>except\<close> takes both a failed conversion and the range error.\<close>

definition set_c_mag :: "prims \<Rightarrow> pyval \<Rightarrow> OSSOSComment \<Rightarrow> OSSOSComment" where
  "set_c_mag X v c =
     (case py_float X v of
        Inl e \<Rightarrow> c\<lparr>c_photometry_note := ''Z'', c_mag := None\<rparr>
      | Inr m \<Rightarrow>
          (if \<not> (15 < m \<and> m < 30)
           then c\<lparr>c_photometry_note := ''Z'', c_mag := None\<rparr>
           else c\<lparr>c_mag := Some m, c_photometry_note := ''Y''\<rparr>))"

text \<open>The other setters of the class, in the order of the source. \<^verbatim>\<open>x\<close> and
  \<^verbatim>\<open>y\<close> become \<open>None\<close> when the conversion fails.\<close>

definition set_c_x :: "prims \<Rightarrow> pyval \<Rightarrow> OSSOSComment \<Rightarrow> OSSOSComment" where
  "set_c_x X v c = c\<lparr>c_x := (case py_float X v of Inl e \<Rightarrow> None | Inr r \<Rightarrow> Some r)\<rparr>"

definition set_c_y :: "prims \<Rightarrow> pyval \<Rightarrow> OSSOSComment \<Rightarrow> OSSOSComment" where
  "set_c_y X v c = c\<lparr>c_y := (case py_float X v of Inl e \<Rightarrow> None | Inr r \<Rightarrow> Some r)\<rparr>"

text \<open>\<^verbatim>\<open>str(self.mag)\<close>, read by the setter of \<^verbatim>\<open>mag_uncertainty\<close>.\<close>

definition str_c_mag :: "prims \<Rightarrow> OSSOSComment \<Rightarrow> string" where
  "str_c_mag X c = (case c_mag c of None \<Rightarrow> ''None'' | Some m \<Rightarrow> repr_float X m)"

definition set_c_mag_uncertainty :: "prims \<Rightarrow> pyval \<Rightarrow> OSSOSComment \<Rightarrow> OSSOSComment" where
  "set_c_mag_uncertainty X v c =
     (let failed = c\<lparr>c_photometry_note := (if isdigit (str_c_mag X c) then ''L'' else ''Z''),
                     c_mag_uncertainty := None\<rparr>
      in case py_float X v of
           Inl e \<Rightarrow> failed
         | Inr u \<Rightarrow> if \<not> (0 < u \<and> u < 1) then failed else c\<lparr>c_mag_uncertainty := Some u\<rparr>)"

definition set_c_plate_uncertainty :: "prims \<Rightarrow> pyval \<Rightarrow> OSSOSComment \<Rightarrow> error + OSSOSComment" where
  "set_c_plate_uncertainty X v c =
     (let u = (case py_float X v of Inl e \<Rightarrow> 2 / 10 | Inr r \<Rightarrow> r)
      in if \<not> (0 < u \<and> u < 100) then Inl ValueError else Inr (c\<lparr>c_plate_uncertainty := u\<rparr>))"

definition set_c_astrometric_level :: "pyval \<Rightarrow> OSSOSComment \<Rightarrow> error + OSSOSComment" where
  "set_c_astrometric_level v c =
     (case py_int v of
        Inl e \<Rightarrow> Inl e
      | Inr l \<Rightarrow> if \<not> (- 1 < l \<and> l < 10) then Inl ValueError
                 else Inr (c\<lparr>c_astrometric_level := l\<rparr>))"

definition set_c_comment :: "string option \<Rightarrow> OSSOSComment \<Rightarrow> OSSOSComment" where
  "set_c_comment v c = c\<lparr>c_comment := (case v of None \<Rightarrow> [] | Some t \<Rightarrow> strip t)\<rparr>"

text \<open>\<^verbatim>\<open>OSSOSComment.__init__\<close>, for an object of class \<open>k\<close>. The attributes are
  assigned in the order of the source; the last two setters can raise.\<close>

definition OSSOSComment_init ::
  "prims \<Rightarrow> comment_class \<Rightarrow> string \<Rightarrow> string option \<Rightarrow> string option \<Rightarrow> string \<Rightarrow> string
     \<Rightarrow> pyval \<Rightarrow> pyval \<Rightarrow> pyval \<Rightarrow> pyval \<Rightarrow> pyval \<Rightarrow> pyval \<Rightarrow> string option
     \<Rightarrow> error + OSSOSComment" where
  "OSSOSComment_init X k version frame source_name photometry_note mpc_note xv yv
       plate_uncertainty astrometric_level magnitude mag_uncertainty comment =
     (let c = \<lparr>cls = k, c_version = version, c_frame = frame, c_source_name = source_name,
               c_photometry_note = photometry_note, c_mpc_note = mpc_note,
               c_x = None, c_y = None, c_mag = None, c_mag_uncertainty = None,
               c_plate_uncertainty = 0, c_astrometric_level = 0, c_comment = [],
               c_flags = None, c_index = None, c_date = None\<rparr>;
          c = set_c_x X xv c;
          c = set_c_y X yv c;
          c = set_c_mag X magnitude c;
          c = set_c_mag_uncertainty X mag_uncertainty c
      in case set_c_plate_uncertainty X plate_uncertainty c of
           Inl e \<Rightarrow> Inl e
         | Inr c \<Rightarrow>
             (case set_c_astrometric_level astrometric_level c of
                Inl e \<Rightarrow> Inl e
              | Inr c \<Rightarrow> Inr (set_c_comment comment c)))"

text \<open>What a \<^verbatim>\<open>from_string\<close> of the comment classes returns: a plain string or a
  comment object.\<close>

datatype comment_val = CStr string | CObj OSSOSComment

text \<open>The format \<^verbatim>\<open>'1s1x10s1x11s1x1s1s1x7s1x7s1x4s1x1s1x5s1x4s1x'\<close>.\<close>

definition ossos_comment_format :: "(bool \<times> nat) list" where
  "ossos_comment_format =
     [(True, 1), (False, 1), (True, 10), (False, 1), (True, 11), (False, 1), (True, 1), (True, 1),
      (False, 1), (True, 7), (False, 1), (True, 7), (False, 1), (True, 4), (False, 1), (True, 1),
      (False, 1), (True, 5), (False, 1), (True, 4), (False, 1)]"

text \<open>The first \<^verbatim>\<open>try\<close> of \<^verbatim>\<open>OSSOSComment.from_string\<close>: the fixed layout, then the
  text after the first \<open>%\<close>.\<close>

definition ossos_fixed :: "prims \<Rightarrow> comment_class \<Rightarrow> string list \<Rightarrow> error + OSSOSComment" where
  "ossos_fixed X k values =
     (case struct_unpack ossos_comment_format (values ! 0) of
        Inl e \<Rightarrow> Inl e
      | Inr f \<Rightarrow>
          (case OSSOSComment_init X k (f ! 0) (Some (f ! 1)) (Some (f ! 2)) (f ! 3) (f ! 4)
                  (PyStr (f ! 5)) (PyStr (f ! 6)) (PyStr (f ! 7)) (PyStr (f ! 8))
                  (PyStr (f ! 9)) (PyStr (f ! 10)) None of
             Inl e \<Rightarrow> Inl e
           | Inr retval \<Rightarrow>
               if length values < 2 then Inl IndexError
               else Inr (set_c_comment (Some (values ! 1)) retval)))"

text \<open>The rest of \<^verbatim>\<open>OSSOSComment.from_string\<close>: the fields separated by
  whitespace. \<^verbatim>\<open>values[0]\<close> of an empty list and \<^verbatim>\<open>values[5]\<close> of a list of five raise
  \<^verbatim>\<open>IndexError\<close>, which the handler raises again.\<close>

definition ossos_separated ::
  "prims \<Rightarrow> comment_class \<Rightarrow> string \<Rightarrow> string list \<Rightarrow> error + OSSOSComment" where
  "ossos_separated X k comment_string values =
     (if values = [] then Inl IndexError
      else if values ! 0 \<noteq> ''O'' \<or> length values < 5 then Inl ValueError
      else if length values < 6 then Inl IndexError
      else
        case OSSOSComment_init X k ''O'' (Some (values ! 1)) (Some (values ! 2))
               (take 1 (values ! 3)) (drop 1 (values ! 3))
               (PyStr (values ! 4)) (PyStr (values ! 5)) (PyFloat (2 / 10)) (PyInt 0)
               PyNone PyNone (Some comment_string) of
          Inl e \<Rightarrow> Inl e
        | Inr retval \<Rightarrow>
            (let retval = retval\<lparr>c_version := values ! 0\<rparr> in
             if length values = 7 then
               set_c_plate_uncertainty X (PyStr (values ! 6)) retval
             else if length values = 8 then
               (case set_c_plate_uncertainty X (PyStr (values ! 6)) retval of
                  Inl e \<Rightarrow> Inl e
                | Inr retval \<Rightarrow> set_c_astrometric_level (PyStr (values ! 7)) retval)
             else if length values = 9 then
               set_c_plate_uncertainty X (PyStr (values ! 8))
                 (set_c_mag_uncertainty X (PyStr (values ! 7))
                   (set_c_mag X (PyStr (values ! 6)) retval))
             else if length values = 10 then
               (case set_c_plate_uncertainty X (PyStr (values ! 8)) retval of
                  Inl e \<Rightarrow> Inl e
                | Inr retval \<Rightarrow>
                    (case set_c_astrometric_level (PyStr (values ! 9)) retval of
                       Inl e \<Rightarrow> Inl e
                     | Inr retval \<Rightarrow>
                         Inr (set_c_mag_uncertainty X (PyStr (values ! 7))
                               (set_c_mag X (PyStr (values ! 6)) retval))))
             else Inr retval))"

text \<open>\<^verbatim>\<open>OSSOSComment.from_string\<close>, called on the class \<open>k\<close>. The first \<^verbatim>\<open>try\<close>
  swallows every exception; the second lets every exception through.\<close>

definition OSSOSComment_from_string :: "prims \<Rightarrow> comment_class \<Rightarrow> string \<Rightarrow> error + comment_val" where
  "OSSOSComment_from_string X k comment =
     (if length comment = 0 then Inr (CStr [])
      else
        let comment = (if comment ! 0 = CHR ''#'' then drop 1 comment else comment);
            values = split_on (CHR ''%'') comment;
            comment_string =
              (if length values > 1 then lstrip_by (\<lambda>a. a = CHR '' '') (values ! 1) else [])
        in case ossos_fixed X k values of
             Inr retval \<Rightarrow> Inr (CObj retval)
           | Inl e \<Rightarrow>
               (case ossos_separated X k comment_string (split_ws (values ! 0)) of
                  Inl e \<Rightarrow> Inl e
                | Inr retval \<Rightarrow> Inr (CObj retval)))"

text \<open>\<^verbatim>\<open>CFEPSComment\<close>: the constructor and \<^verbatim>\<open>from_string\<close>.\<close>

definition CFEPSComment_init :: "prims \<Rightarrow> string \<Rightarrow> string \<Rightarrow> error + OSSOSComment" where
  "CFEPSComment_init X frame comment =
     (let xy =
        (if str_contains comment ''measured inside confirm @''
         then (let values = split_ws (split_on (CHR ''@'') comment ! 1)
               in if length values < 2 then Inl IndexError
                  else Inr (values ! 0, values ! 1))
         else Inr ([], []))
      in case xy of
           Inl e \<Rightarrow> Inl e
         | Inr (xv, yv) \<Rightarrow>
             (case OSSOSComment_init X CFEPS ''O'' (Some frame) None '' '' '' ''
                     (PyStr xv) (PyStr yv) (PyFloat (2 / 10)) (PyInt 0) PyNone PyNone
                     (Some comment) of
                Inl e \<Rightarrow> Inl e
              | Inr c \<Rightarrow> Inr (c\<lparr>c_version := ''L''\<rparr>)))"

definition CFEPSComment_from_string :: "prims \<Rightarrow> string \<Rightarrow> error + comment_val" where
  "CFEPSComment_from_string X comment =
     (let values = split_ws comment in
      if values = [] then Inl IndexError
      else if values ! 0 \<noteq> ''L'' \<or> length values < 2 then Inl ValueError
      else case CFEPSComment_init X (values ! 1) (join '' '' (drop 2 values)) of
             Inl e \<Rightarrow> Inl e
           | Inr c \<Rightarrow> Inr (CObj c))"

text \<open>The loop \<^verbatim>\<open>for func in [...]: try: r = func(line) except ValueError: continue;
  break\<close>: the first function that does not raise \<^verbatim>\<open>ValueError\<close> decides, by its
  value or by its exception; when all raise \<^verbatim>\<open>ValueError\<close> the variable keeps its
  initial value.\<close>

fun first_without_ValueError :: "(string \<Rightarrow> error + 'r) list \<Rightarrow> string \<Rightarrow> 'r \<Rightarrow> error + 'r" where
  "first_without_ValueError [] line r = Inr r"
| "first_without_ValueError (func # funcs) line r =
     (case func line of
        Inl e \<Rightarrow> if e = ValueError then first_without_ValueError funcs line r else Inl e
      | Inr v \<Rightarrow> Inr v)"

text \<open>\<^verbatim>\<open>re.match(r'\d{8}_\S{3}_\S', index)\<close>.\<close>

definition match_index :: "string \<Rightarrow> bool" where
  "match_index s \<longleftrightarrow>
     14 \<le> length s \<and> list_all is_digit (take 8 s) \<and> s ! 8 = CHR ''_''
     \<and> list_all (\<lambda>c. \<not> is_space c) (take 3 (drop 9 s)) \<and> s ! 12 = CHR ''_''
     \<and> \<not> is_space (s ! 13)"

text \<open>\<^verbatim>\<open>TNOdbComment.__init__\<close> and \<^verbatim>\<open>TNOdbComment.from_string\<close>.\<close>

definition TNOdbComment_init ::
  "prims \<Rightarrow> string \<Rightarrow> string \<Rightarrow> string \<Rightarrow> string \<Rightarrow> string option \<Rightarrow> string option \<Rightarrow> string
     \<Rightarrow> string \<Rightarrow> pyval \<Rightarrow> pyval \<Rightarrow> pyval \<Rightarrow> pyval \<Rightarrow> pyval \<Rightarrow> pyval \<Rightarrow> string option
     \<Rightarrow> error + OSSOSComment" where
  "TNOdbComment_init X idx date flgs version frame source_name photometry_note mpc_note xv yv
       plate_uncertainty astrometric_level magnitude mag_uncertainty comment =
     (case OSSOSComment_init X TNOdb version frame source_name photometry_note mpc_note xv yv
             plate_uncertainty astrometric_level magnitude mag_uncertainty comment of
        Inl e \<Rightarrow> Inl e
      | Inr c \<Rightarrow> Inr (c\<lparr>c_index := Some idx, c_date := Some date, c_flags := Some flgs\<rparr>))"

definition py_of_float :: "rat option \<Rightarrow> pyval" where
  "py_of_float v = (case v of None \<Rightarrow> PyNone | Some r \<Rightarrow> PyFloat r)"

definition TNOdbComment_from_string :: "prims \<Rightarrow> string \<Rightarrow> error + OSSOSComment" where
  "TNOdbComment_from_string X line =
     (if length line < 56 then Inl ValueError
      else
        let idx = strip (take 14 line) in
        if \<not> match_index idx then Inl ValueError
        else
          let date = strip (take 8 (drop 15 line));
              flgs = strip (take 10 (drop 24 line));
              comment = strip (drop 56 line)
          in case (if length comment > 0
                   then first_without_ValueError
                          [\<lambda>s. map_sum id Some (OSSOSComment_from_string X OSSOS s),
                           \<lambda>s. map_sum id Some (CFEPSComment_from_string X s)] comment None
                   else Inr None) of
               Inl e \<Rightarrow> Inl e
             | Inr (Some (CObj c)) \<Rightarrow>
                 TNOdbComment_init X idx date flgs (c_version c) (c_frame c) (c_source_name c)
                   (c_photometry_note c) (c_mpc_note c) (py_of_float (c_x c)) (py_of_float (c_y c))
                   (PyFloat (c_plate_uncertainty c)) (PyInt (c_astrometric_level c))
                   (py_of_float (c_mag c)) (py_of_float (c_mag_uncertainty c)) (Some (c_comment c))
             | Inr other \<Rightarrow>
                 TNOdbComment_init X idx date flgs ''T'' (Some '' '') (Some []) '' '' '' ''
                   (PyStr '' '') (PyStr '' '') (PyFloat (2 / 10)) (PyInt 0) PyNone PyNone
                   (Some comment))"

text \<open>\<^verbatim>\<open>RealOSSOSComment.from_string\<close>: \<^verbatim>\<open>comment.strip()[0]\<close> raises on a blank
  string.\<close>

definition RealOSSOSComment_from_string :: "prims \<Rightarrow> string \<Rightarrow> error + comment_val" where
  "RealOSSOSComment_from_string X comment =
     (case strip comment of
        [] \<Rightarrow> Inl IndexError
      | c # cs \<Rightarrow>
          OSSOSComment_from_string X RealOSSOS
            (if c \<noteq> CHR ''O'' then ''O '' @ comment else comment))"

text \<open>\<^verbatim>\<open>MPCComment.from_string\<close>: the dispatcher. The last function of its list is
  \<^verbatim>\<open>str\<close>.\<close>

definition MPCComment_from_string :: "prims \<Rightarrow> string \<Rightarrow> error + comment_val" where
  "MPCComment_from_string X line =
     first_without_ValueError
       [\<lambda>s. map_sum id CObj (TNOdbComment_from_string X s),
        OSSOSComment_from_string X OSSOS,
        RealOSSOSComment_from_string X,
        CFEPSComment_from_string X,
        \<lambda>s. Inr (CStr s)]
       line (CStr line)"

text \<open>\<^verbatim>\<open>OSSOSComment.to_str\<close>: the separator and the formatted value, or the
  separator and the default when the value is \<open>None\<close>. The argument is the formatted
  value, if there is one.\<close>

definition to_str :: "string option \<Rightarrow> string \<Rightarrow> string" where
  "to_str formatted dflt = '' '' @ (case formatted of None \<Rightarrow> dflt | Some t \<Rightarrow> t)"

text \<open>\<^verbatim>\<open>OSSOSComment.__str__\<close>, which the subclasses inherit. A frame that is \<open>None\<close>
  prints as the word \<open>None\<close> in the legacy layout.\<close>

definition OSSOSComment_str :: "prims \<Rightarrow> OSSOSComment \<Rightarrow> string" where
  "OSSOSComment_str X c =
     (if c_version c = ''T'' then c_comment c
      else if c_version c = ''L'' then
        ljust 1 (c_version c) @ '' ''
        @ ljust 10 (case c_frame c of None \<Rightarrow> ''None'' | Some f \<Rightarrow> f) @ '' '' @ c_comment c
      else
        ljust 1 (c_version c)
        @ to_str (map_option (\<lambda>f. rjust 10 (take 10 f)) (c_frame c)) (replicate 10 (CHR ''-''))
        @ to_str (map_option (\<lambda>n. ljust 11 (take 11 n)) (c_source_name c))
            (replicate 11 (CHR ''-''))
        @ to_str (Some (ljust 2 (take 2 (c_photometry_note c @ c_mpc_note c)))) ''--''
        @ to_str (map_option (\<lambda>v. rjust 7 (format_f X 2 v)) (c_x c)) (replicate 7 (CHR ''-''))
        @ to_str (map_option (\<lambda>v. rjust 7 (format_f X 2 v)) (c_y c)) (replicate 7 (CHR ''-''))
        @ to_str (Some (rjust 4 (format_f X 2 (c_plate_uncertainty c)))) (replicate 4 (CHR ''-''))
        @ to_str (Some (rjust 1 (string_of_int (c_astrometric_level c)))) ''-''
        @ to_str (map_option (\<lambda>v. rjust 5 (format_f X 2 v)) (c_mag c)) (replicate 5 (CHR ''-''))
        @ to_str (map_option (\<lambda>v. rjust 4 (format_f X 2 v)) (c_mag_uncertainty c))
            (replicate 4 (CHR ''-''))
        @ '' % '' @ c_comment c)"

section \<open>The fields of an observation\<close>

text \<open>\<^verbatim>\<open>NullObservation\<close>: \<open>is_null\<close> is the attribute \<^verbatim>\<open>_null_observation\<close>, which
  \<^verbatim>\<open>__nonzero__\<close> returns.\<close>

record NullObservation =
  null_observation_character :: string
  is_null :: bool

definition NULL_OBSERVATION_CHARACTERS :: "string list" where
  "NULL_OBSERVATION_CHARACTERS = [''!'', ''-'', ''#'']"

definition NullObservation_init :: "pyval \<Rightarrow> string option \<Rightarrow> error + NullObservation" where
  "NullObservation_init v character =
     (let ch = (case character of
                  None \<Rightarrow> NULL_OBSERVATION_CHARACTERS ! 0
                | Some c \<Rightarrow> c)
      in case v of
           PyStr t \<Rightarrow>
             (if t = [] then Inl IndexError
              else Inr \<lparr>null_observation_character = ch,
                        is_null = (take 1 t \<in> set NULL_OBSERVATION_CHARACTERS)\<rparr>)
         | PyBool b \<Rightarrow> Inr \<lparr>null_observation_character = ch, is_null = b\<rparr>
         | other \<Rightarrow> Inr \<lparr>null_observation_character = ch, is_null = False\<rparr>)"

definition NullObservation_str :: "NullObservation \<Rightarrow> string" where
  "NullObservation_str n =
     (if is_null n \<and> null_observation_character n \<noteq> [] then null_observation_character n
      else '' '')"

text \<open>\<^verbatim>\<open>Discovery\<close>: two flags, each with its setter; \<^verbatim>\<open>__nonzero__\<close> returns
  \<open>is_discovery\<close>.\<close>

record Discovery =
  is_discovery :: bool
  is_initial_discovery :: bool

definition set_is_discovery :: "pyval \<Rightarrow> Discovery \<Rightarrow> error + Discovery" where
  "set_is_discovery v d =
     (if \<not> py_in v [PyStr ''*'', PyStr ''&'', PyStr '' '', PyStr [], PyBool True, PyBool False,
                      PyNone]
      then Inl (MPCFieldFormatError ''discovery'')
      else Inr (d\<lparr>is_discovery := py_in v [PyStr ''*'', PyStr ''&'', PyBool True]\<rparr>))"

definition set_is_initial_discovery :: "pyval \<Rightarrow> Discovery \<Rightarrow> Discovery" where
  "set_is_initial_discovery v d =
     d\<lparr>is_initial_discovery := py_in v [PyStr ''*'', PyBool True]\<rparr>"

definition Discovery_init :: "pyval \<Rightarrow> error + Discovery" where
  "Discovery_init v =
     (case set_is_discovery v \<lparr>is_discovery = False, is_initial_discovery = False\<rparr> of
        Inl e \<Rightarrow> Inl e
      | Inr d \<Rightarrow> Inr (set_is_initial_discovery v d))"

definition Discovery_str :: "Discovery \<Rightarrow> string" where
  "Discovery_str d =
     (if is_initial_discovery d then ''*'' else if is_discovery d then ''&'' else '' '')"

text \<open>\<^verbatim>\<open>MPCNote\<close> and the keys of the table \<^verbatim>\<open>MPCNOTES\<close>.\<close>

definition MPCNOTES :: "string \<Rightarrow> string list option" where
  "MPCNOTES t =
     (if t = ''Note1'' then
        Some (['' '', [], ''*''] @ map (\<lambda>c. [c]) ''AaBbcDdEFfGgHIiJKkMmNOoPpRrSsTtUuVWw'')
      else if t = ''Note2'' then Some (['' '', []] @ map (\<lambda>c. [c]) ''PeCTMVRScEOHNn'')
      else if t = ''PhotometryNote'' then Some ['' '', [], ''L'', ''Y'', ''Z'']
      else None)"

record MPCNote =
  note_type :: string
  code :: string

definition MPCNote_init :: "string option \<Rightarrow> string \<Rightarrow> error + MPCNote" where
  "MPCNote_init c t =
     (case MPCNOTES t of
        None \<Rightarrow> Inl ValueError
      | Some codes \<Rightarrow>
          (let cd = (case c of None \<Rightarrow> '' '' | Some u \<Rightarrow> strip u) in
           if isdigit cd then
             (if t \<noteq> ''Note1'' then Inl (MPCFieldFormatError t)
              else if \<not> (0 < digits_val cd \<and> digits_val cd < 10) then Inl (MPCFieldFormatError t)
              else Inr \<lparr>note_type = t, code = cd\<rparr>)
           else if length cd > 1 then Inl (MPCFieldFormatError t)
           else if cd \<notin> set codes then Inl (MPCFieldFormatError t)
           else Inr \<lparr>note_type = t, code = cd\<rparr>))"

section \<open>Observation\<close>

record Observation =
  null_observation :: NullObservation
  provisional_name :: string
  discovery :: Discovery
  note1 :: MPCNote
  note2 :: MPCNote
  date :: Time
  date_precision :: nat
  coordinate :: ICRS
  ra_precision :: nat
  dec_precision :: nat
  mag :: "rat option"
  mag_precision :: nat
  mag_err :: pyval
  band :: "string option"
  observatory_code :: string
  comment :: comment_val

text \<open>The setter of \<^verbatim>\<open>coordinate\<close> for a pair of strings: first both as decimal
  degrees, then, on any exception, as sexagesimal text, whose precisions are the
  digits after the last \<open>.\<close> of each string. The result is the coordinate with the two
  precisions the setter leaves.\<close>

definition coordinate_of_pair :: "prims \<Rightarrow> string \<Rightarrow> string \<Rightarrow> error + ICRS \<times> nat \<times> nat" where
  "coordinate_of_pair X val1 val2 =
     (let degrees =
        (case (py_float X (PyStr val1), py_float X (PyStr val2)) of
           (Inr r, Inr d) \<Rightarrow> ICRS_degrees X r d
         | other \<Rightarrow> None)
      in case degrees of
           Some c \<Rightarrow> Inr (c, 3, 2)
         | None \<Rightarrow>
             (case ICRS_sexagesimal X val1 val2 of
                None \<Rightarrow> Inl (MPCFieldFormatError ''coord_pair'')
              | Some c \<Rightarrow> Inr (c, compute_precision val1, compute_precision val2)))"

text \<open>The setter of \<^verbatim>\<open>mag\<close>: the magnitude and its precision. \<^verbatim>\<open>float(mag)\<close> on a
  string that is no number raises \<^verbatim>\<open>ValueError\<close>.\<close>

definition mag_of :: "prims \<Rightarrow> string option \<Rightarrow> error + rat option \<times> nat" where
  "mag_of X m =
     (case m of
        None \<Rightarrow> Inr (None, 0)
      | Some t \<Rightarrow>
          if length (strip_char (CHR '' '') t) = 0 then Inr (None, 0)
          else (case py_float X (PyStr t) of
                  Inl e \<Rightarrow> Inl e
                | Inr r \<Rightarrow> if r < 0 then Inr (None, 0)
                           else Inr (Some r, min 1 (compute_precision t))))"

text \<open>The setter of \<^verbatim>\<open>band\<close>.\<close>

definition band_of :: "string \<Rightarrow> string option" where
  "band_of b = (let b = strip_char (CHR '' '') b in if length b > 0 then Some (take 1 b) else None)"

text \<open>
  \<^verbatim>\<open>Observation.__init__\<close> on the eleven arguments that \<^verbatim>\<open>from_string\<close> passes; the
  other parameters are at their defaults (\<^verbatim>\<open>comment=None\<close>, \<^verbatim>\<open>mag_err=-1\<close>,
  \<^verbatim>\<open>xpos=None\<close>, \<^verbatim>\<open>ypos=None\<close>, \<^verbatim>\<open>frame=None\<close>, \<^verbatim>\<open>plate_uncertainty=None\<close>,
  \<^verbatim>\<open>astrometric_level=0\<close>). The statements run in the order of the source, each
  setter raising as the source does. After the setter of \<^verbatim>\<open>coordinate\<close> has run, the
  constructor assigns \<^verbatim>\<open>_ra_precision = 3\<close> and \<^verbatim>\<open>_dec_precision = 2\<close>.
\<close>

definition Observation_init ::
  "prims \<Rightarrow> pyval \<Rightarrow> string option \<Rightarrow> pyval \<Rightarrow> string option \<Rightarrow> string option \<Rightarrow> string
     \<Rightarrow> string \<Rightarrow> string \<Rightarrow> string option \<Rightarrow> string \<Rightarrow> string \<Rightarrow> error + Observation" where
  "Observation_init X null_obs name disc n1 n2 date_str ra dec m b obs_code =
     (case NullObservation_init null_obs None of
        Inl e \<Rightarrow> Inl e
      | Inr nullobs \<Rightarrow>
     (let pname = (case name of None \<Rightarrow> replicate 7 (CHR '' '') | Some t \<Rightarrow> strip t) in
     (case Discovery_init disc of
        Inl e \<Rightarrow> Inl e
      | Inr dsc \<Rightarrow>
     (case MPCNote_init n1 ''Note1'' of
        Inl e \<Rightarrow> Inl e
      | Inr nt1 \<Rightarrow>
     (case MPCNote_init n2 ''Note2'' of
        Inl e \<Rightarrow> Inl e
      | Inr nt2 \<Rightarrow>
     (case Time_mpc X date_str (compute_precision date_str) of
        None \<Rightarrow> Inl (MPCFieldFormatError ''Observation Date'')
      | Some tm \<Rightarrow>
     (case coordinate_of_pair X ra dec of
        Inl e \<Rightarrow> Inl e
      | Inr (coord, rap, decp) \<Rightarrow>
     (case mag_of X m of
        Inl e \<Rightarrow> Inl e
      | Inr (mg, mgp) \<Rightarrow>
     (let merr = (if mg = None then PyNone else PyInt (- 1)) in
      if \<not> length obs_code \<le> 3 then Inl (MPCFieldFormatError ''Observatory code'')
      else
     (case OSSOSComment_init X OSSOS ''O'' None name [] (code nt1) PyNone PyNone PyNone (PyInt 0)
             (case m of None \<Rightarrow> PyNone | Some t \<Rightarrow> PyStr t) (PyInt (- 1)) None of
        Inl e \<Rightarrow> Inl e
      | Inr c \<Rightarrow>
          Inr \<lparr>null_observation = nullobs, provisional_name = pname, discovery = dsc,
               note1 = nt1, note2 = nt2, date = tm, date_precision = compute_precision date_str,
               coordinate = coord, ra_precision = 3, dec_precision = 2,
               mag = mg, mag_precision = mgp, mag_err = merr, band = band_of b,
               observatory_code = obs_code, comment = CObj c\<rparr>))))))))))"

text \<open>The format \<^verbatim>\<open>'1s11s1s1s1s17s12s12s9x5s1s6x3s'\<close> of the 80 columns.\<close>

definition mpc_format :: "(bool \<times> nat) list" where
  "mpc_format =
     [(True, 1), (True, 11), (True, 1), (True, 1), (True, 1), (True, 17), (True, 12), (True, 12),
      (False, 9), (True, 5), (True, 1), (False, 6), (True, 3)]"

text \<open>What \<^verbatim>\<open>Observation.from_string\<close> returns: \<^verbatim>\<open>None\<close>, the comment of a line
  that starts with \<open>#\<close>, or an observation.\<close>

datatype parsed = NoRecord | CommentLine comment_val | Record Observation

text \<open>The end of \<^verbatim>\<open>from_string\<close>, once the comment has been parsed: the comment is
  attached, an object without a source name gets the provisional name, and a
  \<^verbatim>\<open>TNOdbComment\<close> whose flags start with \<open>1\<close> marks the record as a discovery
  (\<^verbatim>\<open>flags[0]\<close> of an empty flag string raises).\<close>

definition attach_comment :: "Observation \<Rightarrow> comment_val \<Rightarrow> error + Observation" where
  "attach_comment obsrec cm =
     (case cm of
        CStr t \<Rightarrow> Inr (obsrec\<lparr>comment := CStr t\<rparr>)
      | CObj c \<Rightarrow>
          (let c = (if c_source_name c = None
                    then c\<lparr>c_source_name := Some (provisional_name obsrec)\<rparr> else c);
               obsrec = obsrec\<lparr>comment := CObj c\<rparr>
           in if cls c = TNOdb then
                (case c_flags c of
                   None \<Rightarrow> Inl TypeError
                 | Some [] \<Rightarrow> Inl IndexError
                 | Some (a # fl) \<Rightarrow>
                     if a = CHR ''1'' then
                       (case set_is_discovery (PyBool True) (discovery obsrec) of
                          Inl e \<Rightarrow> Inl e
                        | Inr d \<Rightarrow> Inr (obsrec\<lparr>discovery := d\<rparr>))
                     else Inr obsrec)
              else Inr obsrec))"

definition Observation_from_string :: "prims \<Rightarrow> string \<Rightarrow> error + parsed" where
  "Observation_from_string X input_line =
     (let mpc_line = strip_char (CHR 0x0A) input_line in
      if length mpc_line > 0 \<and> mpc_line ! 0 = CHR ''#''
      then map_sum id CommentLine (MPCComment_from_string X (drop 1 mpc_line))
      else
        (let cmt = drop 81 mpc_line;
             mpc_line = take 80 mpc_line
         in if length mpc_line \<noteq> 80 then Inr NoRecord
            else
              (case struct_unpack mpc_format mpc_line of
                 Inl e \<Rightarrow> Inl e
               | Inr f \<Rightarrow>
              (case Observation_init X (PyStr (f ! 0)) (Some (f ! 1)) (PyStr (f ! 2))
                      (Some (f ! 3)) (Some (f ! 4)) (f ! 5) (f ! 6) (f ! 7) (Some (f ! 8))
                      (f ! 9) (f ! 10) of
                 Inl e \<Rightarrow> Inl e
               | Inr obsrec \<Rightarrow>
              (case MPCComment_from_string X cmt of
                 Inl e \<Rightarrow> Inl e
               | Inr cm \<Rightarrow> map_sum id Record (attach_comment obsrec cm))))))"

text \<open>\<^verbatim>\<open>str(comment)\<close> for the value of the attribute \<^verbatim>\<open>comment\<close>.\<close>

definition comment_str :: "prims \<Rightarrow> comment_val \<Rightarrow> string" where
  "comment_str X cm = (case cm of CStr t \<Rightarrow> t | CObj c \<Rightarrow> OSSOSComment_str X c)"

text \<open>
  \<^verbatim>\<open>Observation.__str__\<close>: the 80 columns. The name is padded with four blanks
  unless it is longer than seven characters; the magnitude is printed with the
  precision of the record and followed by the band (a band that is \<open>None\<close> prints as
  the word \<open>None\<close>); a magnitude string that is not six characters long raises.
\<close>

definition Observation_str :: "prims \<Rightarrow> Observation \<Rightarrow> error + string" where
  "Observation_str X obs =
     (let padding = (if length (provisional_name obs) > 7 then [] else replicate 4 (CHR '' ''));
          mpc_str = ljust 12 (NullObservation_str (null_observation obs) @ padding
                              @ provisional_name obs);
          mpc_str = mpc_str @ Discovery_str (discovery obs);
          mpc_str = mpc_str @ ljust 1 (code (note1 obs)) @ ljust 1 (code (note2 obs));
          mpc_str = mpc_str @ ljust 17 (Time_str X (date obs));
          mpc_str = mpc_str @ ljust 12 (ra_format X (coordinate obs) (ra_precision obs))
                            @ ljust 12 (dec_format X (coordinate obs) (dec_precision obs));
          mpc_str = mpc_str @ replicate 9 (CHR '' '');
          mag_str =
            (case mag obs of
               None \<Rightarrow> replicate 6 (CHR '' '')
             | Some v \<Rightarrow>
                 ljust 5 (format_f X (mag_precision obs) v)
                 @ ljust 1 (case band obs of None \<Rightarrow> ''None'' | Some b \<Rightarrow> b))
      in if length mag_str \<noteq> 6 then Inl (MPCFieldFormatError ''mag'')
         else Inr (mpc_str @ mag_str @ replicate 6 (CHR '' '') @ rjust 3 (observatory_code obs)))"

text \<open>\<^verbatim>\<open>Observation.to_string\<close>: the 80 columns, then a blank and the comment if the
  comment does not print as the empty string.\<close>

definition Observation_to_string :: "prims \<Rightarrow> Observation \<Rightarrow> error + string" where
  "Observation_to_string X obs =
     (case Observation_str X obs of
        Inl e \<Rightarrow> Inl e
      | Inr as_string \<Rightarrow>
          if comment_str X (comment obs) \<noteq> []
          then Inr (as_string @ '' '' @ comment_str X (comment obs))
          else Inr as_string)"

section \<open>MPCWriter\<close>

text \<open>
  The writer's attributes. \<open>buffer\<close> is the dictionary from \<^verbatim>\<open>date.mjd\<close> to the
  observation, an association list with one entry per key; \<open>filehandle\<close> is the list
  of the strings written to the file so far. The constructor's \<^verbatim>\<open>formatter\<close> becomes
  the function that renders a line and may raise. \<open>emitted\<close> is not an attribute of
  the source: it records, for each string written, the observation as it was when
  it was rendered, so that theorems can speak of the record behind a line.

  An \<^verbatim>\<open>Observation\<close> is a mutable object and the buffer holds a reference to it:
  what \<^verbatim>\<open>_flush_observation\<close> assigns to \<^verbatim>\<open>obs.discovery\<close> is still there at the
  next flush. The model stores the changed record back under its key. It takes the
  records that are written as values: a caller that keeps a reference and changes a
  record between two calls is outside the model.
\<close>

record MPCWriter =
  auto_flush :: bool
  include_comments :: bool
  auto_discovery :: bool
  formatter :: "Observation \<Rightarrow> error + string"
  buffer :: "(rat \<times> Observation) list"
  written_mpc_observations :: "rat list"
  discovery_written :: bool
  filehandle :: "string list"
  emitted :: "Observation list"

text \<open>The constructor. Without a formatter the lines are rendered by
  \<^verbatim>\<open>Observation.to_string\<close> when comments are included and by
  \<^verbatim>\<open>Observation.__str__\<close> otherwise. The defaults of the source are
  \<^verbatim>\<open>auto_flush=True\<close>, \<^verbatim>\<open>include_comments=True\<close>, \<^verbatim>\<open>auto_discovery=True\<close>,
  \<^verbatim>\<open>formatter=None\<close>.\<close>

definition MPCWriter_init ::
  "prims \<Rightarrow> bool \<Rightarrow> bool \<Rightarrow> bool \<Rightarrow> (Observation \<Rightarrow> error + string) option \<Rightarrow> MPCWriter" where
  "MPCWriter_init X aflush comments adiscovery fmt =
     \<lparr>auto_flush = aflush, include_comments = comments, auto_discovery = adiscovery,
      formatter = (case fmt of
                     None \<Rightarrow> if comments then Observation_to_string X else Observation_str X
                   | Some f \<Rightarrow> f),
      buffer = [], written_mpc_observations = [], discovery_written = False,
      filehandle = [], emitted = []\<rparr>"

text \<open>\<^verbatim>\<open>d[key] = value\<close> on the association list.\<close>

fun dict_set :: "'k \<Rightarrow> 'v \<Rightarrow> ('k \<times> 'v) list \<Rightarrow> ('k \<times> 'v) list" where
  "dict_set k v [] = [(k, v)]"
| "dict_set k v ((k', v') # kvs) =
     (if k' = k then (k, v) # kvs else (k', v') # dict_set k v kvs)"

text \<open>
  \<^verbatim>\<open>_flush_observation\<close>. It returns the observation as the call leaves it, the
  writer, and the exception of the formatter if it raised. The Julian day is
  appended to the written list before the line is rendered.
\<close>

definition flush_observation ::
  "MPCWriter \<Rightarrow> Observation \<Rightarrow> Observation \<times> MPCWriter \<times> error option" where
  "flush_observation w obs =
     (let obs =
        (if auto_discovery w \<and> \<not> is_null (null_observation obs) \<and> \<not> discovery_written w
         then (case Discovery_init (PyBool True) of
                 Inr d \<Rightarrow> obs\<lparr>discovery := d\<rparr>
               | Inl e \<Rightarrow> obs)
         else obs);
          (obs, w) =
        (if is_discovery (discovery obs)
         then (if discovery_written w
               then (obs\<lparr>discovery := set_is_initial_discovery (PyBool False) (discovery obs)\<rparr>,
                     w)
               else (obs, w\<lparr>discovery_written := True\<rparr>))
         else (obs, w))
      in if jd (date obs) \<notin> set (written_mpc_observations w)
         then
           (let w = w\<lparr>written_mpc_observations := written_mpc_observations w @ [jd (date obs)]\<rparr>
            in case formatter w obs of
                 Inl e \<Rightarrow> (obs, w, Some e)
               | Inr line \<Rightarrow>
                   (obs,
                    w\<lparr>filehandle := filehandle w @ [line @ [CHR 0x0A]],
                      emitted := emitted w @ [obs]\<rparr>,
                    None))
         else (obs, w, None))"

text \<open>
  \<^verbatim>\<open>flush\<close> with \<^verbatim>\<open>get_chronological_buffered_observations\<close>: the keys of the buffer
  are sorted and the observations flushed in that order. The loop stops at the first
  exception. The buffer is not emptied.
\<close>

fun flush_keys :: "MPCWriter \<Rightarrow> rat list \<Rightarrow> MPCWriter \<times> error option" where
  "flush_keys w [] = (w, None)"
| "flush_keys w (k # ks) =
     (case map_of (buffer w) k of
        None \<Rightarrow> flush_keys w ks
      | Some obs \<Rightarrow>
          (case flush_observation w obs of
             (obs', w', err) \<Rightarrow>
               (let w'' = w'\<lparr>buffer := dict_set k obs' (buffer w')\<rparr>
                in case err of
                     Some e \<Rightarrow> (w'', Some e)
                   | None \<Rightarrow> flush_keys w'' ks)))"

definition MPCWriter_flush :: "MPCWriter \<Rightarrow> MPCWriter \<times> error option" where
  "MPCWriter_flush w = flush_keys w (sort (map fst (buffer w)))"

text \<open>\<^verbatim>\<open>write\<close>.\<close>

definition MPCWriter_write :: "MPCWriter \<Rightarrow> Observation \<Rightarrow> MPCWriter \<times> error option" where
  "MPCWriter_write w mpc_observation =
     (let key = mjd (date mpc_observation);
          w = w\<lparr>buffer := dict_set key mpc_observation (buffer w)\<rparr>
      in if auto_flush w then MPCWriter_flush w else (w, None))"

text \<open>A caller's use of one writer: a sequence of calls of \<^verbatim>\<open>write\<close> and \<^verbatim>\<open>flush\<close>.
  A call that raises leaves the writer as it was when the exception left it, and the
  caller may go on.\<close>

datatype call = Write Observation | Flush

fun do_call :: "MPCWriter \<Rightarrow> call \<Rightarrow> MPCWriter" where
  "do_call w (Write obs) = fst (MPCWriter_write w obs)"
| "do_call w Flush = fst (MPCWriter_flush w)"

definition run :: "MPCWriter \<Rightarrow> call list \<Rightarrow> MPCWriter" where
  "run w calls = foldl do_call w calls"

section \<open>Index\<close>

text \<open>The two dictionaries of the name index. The constructor reads the lines of the
  index file; the model takes the list that \<^verbatim>\<open>readlines()\<close> returns.\<close>

record Index =
  names :: "string \<rightharpoonup> string"
  index :: "string \<rightharpoonup> string list"

definition MAX_NAME_LENGTH :: nat where
  "MAX_NAME_LENGTH = 10"

text \<open>The inner loop: \<^verbatim>\<open>line[i:i + MAX_NAME_LENGTH]\<close> for \<open>i\<close> from \<open>MAX_NAME_LENGTH\<close>
  in steps of \<open>MAX_NAME_LENGTH\<close> below the length of the line; \<open>rest\<close> is the line
  from \<open>i\<close> on.\<close>

function add_aliases :: "string \<Rightarrow> string \<Rightarrow> Index \<Rightarrow> Index" where
  "add_aliases master_name rest idx =
     (if rest = [] then idx
      else
        let this_name = strip (take MAX_NAME_LENGTH rest)
        in add_aliases master_name (drop MAX_NAME_LENGTH rest)
             (idx\<lparr>index := (index idx)(master_name \<mapsto>
                      (case index idx master_name of None \<Rightarrow> [] | Some l \<Rightarrow> l) @ [this_name]),
                  names := (names idx)(this_name \<mapsto> master_name)\<rparr>))"
  by pat_completeness auto
termination
  by (relation "measure (\<lambda>(m, rest, idx). length rest)") (auto simp: MAX_NAME_LENGTH_def)

declare add_aliases.simps [simp del]

definition add_line :: "Index \<Rightarrow> string \<Rightarrow> Index" where
  "add_line idx line =
     (let master_name = strip (take MAX_NAME_LENGTH line);
          idx = idx\<lparr>names := (names idx)(master_name \<mapsto> master_name)\<rparr>;
          idx = idx\<lparr>index := (index idx)(master_name \<mapsto> [master_name])\<rparr>
      in add_aliases master_name (drop MAX_NAME_LENGTH line) idx)"

definition Index_init :: "string list \<Rightarrow> Index" where
  "Index_init lines = foldl add_line \<lparr>names = Map.empty, index = Map.empty\<rparr> lines"

text \<open>\<^verbatim>\<open>get_aliases\<close> returns the name itself, a string, when the name is not a key of
  \<open>names\<close>, and the list of the master name otherwise (\<^verbatim>\<open>KeyError\<close> if \<open>index\<close> has no
  such key).\<close>

datatype aliases = Name string | Group "string list"

definition get_aliases :: "Index \<Rightarrow> string \<Rightarrow> error + aliases" where
  "get_aliases idx name =
     (case names idx name of
        None \<Rightarrow> Inr (Name name)
      | Some master \<Rightarrow>
          (case index idx master of None \<Rightarrow> Inl KeyError | Some l \<Rightarrow> Inr (Group l)))"

text \<open>\<^verbatim>\<open>is_same\<close>: \<^verbatim>\<open>name2 in self.get_aliases(name1)\<close>. On a list \<^verbatim>\<open>in\<close> is
  membership; on a string it is the substring test.\<close>

definition is_same :: "Index \<Rightarrow> string \<Rightarrow> string \<Rightarrow> error + bool" where
  "is_same idx name1 name2 =
     (case get_aliases idx name1 of
        Inl e \<Rightarrow> Inl e
      | Inr (Name t) \<Rightarrow> Inr (str_contains t name2)
      | Inr (Group l) \<Rightarrow> Inr (name2 \<in> set l))"

section \<open>An instance of the external primitives\<close>

text \<open>
  Concrete runs need concrete primitives. \<open>example_prims\<close> reads and prints decimal
  numbers, and knows the date of the example line of the specification, the two days
  after it, and its coordinates: 2013 October 5 at 0h UT is the Julian day 2456570.5, and
  12h 34m 45.671s, -20d 28' 15.90" are 188.6902958... and -20.4710833... degrees. On
  other dates and coordinates it fails; the concrete runs below do not use any.
\<close>

text \<open>A decimal literal: optional sign, digits with an optional point, at least one
  digit; whitespace around it is ignored.\<close>

definition decimal_of_str :: "string \<Rightarrow> rat option" where
  "decimal_of_str s =
     (let t = strip s;
          neg = (take 1 t = ''-'');
          t = (if take 1 t = ''-'' \<or> take 1 t = ''+'' then drop 1 t else t);
          ip = takeWhile (\<lambda>c. c \<noteq> CHR ''.'') t;
          fp = drop 1 (dropWhile (\<lambda>c. c \<noteq> CHR ''.'') t)
      in if list_all is_digit ip \<and> list_all is_digit fp \<and> (ip \<noteq> [] \<or> fp \<noteq> [])
         then Some ((if neg then - 1 else 1) *
                    (of_nat (digits_val ip) + of_nat (digits_val fp) / 10 ^ length fp))
         else None)"

text \<open>A number with \<open>p\<close> digits after the point, rounded half to even.\<close>

definition round_half_even :: "rat \<Rightarrow> nat" where
  "round_half_even q =
     (let n = nat \<lfloor>q\<rfloor>; r = q - of_nat n
      in if r > 1 / 2 \<or> (r = 1 / 2 \<and> odd n) then n + 1 else n)"

definition decimal_str :: "nat \<Rightarrow> rat \<Rightarrow> string" where
  "decimal_str p q =
     (let n = round_half_even (\<bar>q\<bar> * 10 ^ p);
          fp = string_of_nat (n mod 10 ^ p)
      in (if q < 0 then ''-'' else []) @ string_of_nat (n div 10 ^ p)
         @ (if p = 0 then [] else ''.'' @ replicate (p - length fp) (CHR ''0'') @ fp))"

definition example_time :: Time where
  "example_time = \<lparr>jd = 2456570912683 / 1000000, mjd = 56570412683 / 1000000, time_precision = 6\<rparr>"

definition example_time2 :: Time where
  "example_time2 = \<lparr>jd = 2456571912683 / 1000000, mjd = 56571412683 / 1000000, time_precision = 6\<rparr>"

definition example_time3 :: Time where
  "example_time3 = \<lparr>jd = 2456572912683 / 1000000, mjd = 56572412683 / 1000000, time_precision = 6\<rparr>"

definition example_dates :: "(string \<times> Time) list" where
  "example_dates =
     [(''2013 10 05.412683'', example_time), (''2013 10 06.412683'', example_time2),
      (''2013 10 07.412683'', example_time3)]"

definition example_coordinate :: ICRS where
  "example_coordinate =
     \<lparr>ra_deg = 15 * (12 + 34 / 60 + 45671 / 3600000), dec_deg = - (20 + 28 / 60 + 1590 / 360000)\<rparr>"

definition example_prims :: prims where
  "example_prims =
     \<lparr>float_of_str = decimal_of_str,
      format_f = decimal_str,
      repr_float = decimal_str 2,
      Time_mpc = (\<lambda>s p. if p = 6 then map_of example_dates s else None),
      Time_str = (\<lambda>t. case map_of (map (\<lambda>(s, t). (t, s)) example_dates) t of
                         None \<Rightarrow> [] | Some s \<Rightarrow> s),
      ICRS_degrees = (\<lambda>r d. None),
      ICRS_sexagesimal =
        (\<lambda>r d. if r = ''12 34 45.671'' \<and> d = ''-20 28 15.90'' then Some example_coordinate
                else None),
      ra_format = (\<lambda>c p. if c = example_coordinate \<and> p = 3 then ''12 34 45.671'' else []),
      dec_format = (\<lambda>c p. if c = example_coordinate \<and> p = 2 then ''-20 28 15.90'' else [])\<rparr>"

section \<open>The example lines\<close>

text \<open>The scenario line of the specification as it is written there, and an 80-column
  line with the same fields in the columns of the format.\<close>

definition scenario_line :: string where
  "scenario_line =
     ''     K13T01 A*2 C2013 10 05.41268312 34 45.671-20 28 15.90         20.63R      568''"

definition example_line :: string where
  "example_line =
     ''     K13T01 *AC2013 10 05.41268312 34 45.671-20 28 15.90         20.63R      568''"

text \<open>The record that the 80-column line parses to under \<open>example_prims\<close>.\<close>

definition example_record :: Observation where
  "example_record =
     \<lparr>null_observation = \<lparr>null_observation_character = ''!'', is_null = False\<rparr>,
      provisional_name = ''K13T01'',
      discovery = \<lparr>is_discovery = True, is_initial_discovery = True\<rparr>,
      note1 = \<lparr>note_type = ''Note1'', code = ''A''\<rparr>,
      note2 = \<lparr>note_type = ''Note2'', code = ''C''\<rparr>,
      date = example_time, date_precision = 6,
      coordinate = example_coordinate, ra_precision = 3, dec_precision = 2,
      mag = Some (2063 / 100), mag_precision = 1, mag_err = PyInt (- 1), band = Some ''R'',
      observatory_code = ''568'', comment = CStr []\<rparr>"

text \<open>Records for concrete runs of the writer: the example record as a null
  observation, with and without its discovery marker; the example record one and two
  days later; the example record under another name.\<close>

definition null_star_record :: Observation where
  "null_star_record =
     example_record\<lparr>null_observation := \<lparr>null_observation_character = ''!'', is_null = True\<rparr>\<rparr>"

definition null_blank_record :: Observation where
  "null_blank_record =
     null_star_record\<lparr>discovery := \<lparr>is_discovery = False, is_initial_discovery = False\<rparr>\<rparr>"

definition second_day_record :: Observation where
  "second_day_record = example_record\<lparr>date := example_time2\<rparr>"

definition third_day_record :: Observation where
  "third_day_record = example_record\<lparr>date := example_time3\<rparr>"

definition other_name_record :: Observation where
  "other_name_record = example_record\<lparr>provisional_name := ''K13T02''\<rparr>"

text \<open>Two writers, one with the defaults of the constructor and one that does not
  flush on every write, and two sequences of calls.\<close>

definition three_day_calls :: "call list" where
  "three_day_calls = [Write null_blank_record, Write second_day_record, Write third_day_record]"

definition same_day_calls :: "call list" where
  "same_day_calls = [Write example_record, Write other_name_record, Flush]"

definition default_writer :: MPCWriter where
  "default_writer = MPCWriter_init example_prims True True True None"

definition buffering_writer :: MPCWriter where
  "buffering_writer = MPCWriter_init example_prims False True True None"

text \<open>A comment that has the index and the length of the database layout and \<open>%\<close> as
  its comment text; an index file of one line, a master name and one alias; a comment
  object to assign magnitudes to.\<close>

definition tnodb_percent_line :: string where
  "tnodb_percent_line = ''12345678_abc_d'' @ replicate 42 (CHR '' '') @ ''%''"

definition example_index :: Index where
  "example_index = Index_init [''master    alias1'' @ [CHR 0x0A]]"

definition example_comment :: OSSOSComment where
  "example_comment =
     \<lparr>cls = OSSOS, c_version = ''O'', c_frame = Some ''1631355p21'',
      c_source_name = Some ''O13AE2O'', c_photometry_note = ''Z'', c_mpc_note = '' '',
      c_x = None, c_y = None, c_mag = None, c_mag_uncertainty = None,
      c_plate_uncertainty = 2 / 10, c_astrometric_level = 0, c_comment = [],
      c_flags = None, c_index = None, c_date = None\<rparr>"

text \<open>Every name that the index knows has a list that starts with its master name.\<close>

definition canonical_first :: "Index \<Rightarrow> bool" where
  "canonical_first idx \<longleftrightarrow>
     (\<forall>n m. names idx n = Some m \<longrightarrow> (\<exists>l. index idx m = Some (m # l)))"

text \<open>The rendering of \<open>example_record\<close> under \<open>example_prims\<close>, and the record that
  this rendering parses to.\<close>

definition rendered_line :: string where
  "rendered_line =
     ''     K13T01 *AC2013 10 05.41268312 34 45.671-20 28 15.90         20.6 R      568''"

definition rendered_record :: Observation where
  "rendered_record = example_record\<lparr>mag := Some (206 / 10)\<rparr>"

section \<open>Predicates for the theorems about the writer\<close>

text \<open>
  The constructor of \<^verbatim>\<open>Discovery\<close> sets both flags from one value, so an initial
  discovery is a discovery; only a caller that assigns
  \<^verbatim>\<open>is_initial_discovery\<close> by itself can break this. \<open>blank_null\<close> is a null
  observation whose discovery column is blank. \<open>star_first\<close> says of the emitted
  records: all before the first one that is not such a blank null observation are,
  by definition, blank null observations, and none after it is an initial discovery.
  \<open>discovery_inv\<close> is the invariant of a writer with \<^verbatim>\<open>auto_discovery\<close>.
\<close>

definition constructor_state :: "Discovery \<Rightarrow> bool" where
  "constructor_state d \<longleftrightarrow> (is_initial_discovery d \<longrightarrow> is_discovery d)"

definition blank_null :: "Observation \<Rightarrow> bool" where
  "blank_null obs \<longleftrightarrow>
     is_null (null_observation obs) \<and> \<not> is_discovery (discovery obs)
     \<and> \<not> is_initial_discovery (discovery obs)"

fun star_first :: "Observation list \<Rightarrow> bool" where
  "star_first [] = True"
| "star_first (e # es) =
     (if blank_null e then star_first es
      else list_all (\<lambda>obs. \<not> is_initial_discovery (discovery obs)) es)"

definition discovery_inv :: "MPCWriter \<Rightarrow> bool" where
  "discovery_inv w \<longleftrightarrow>
     auto_discovery w
     \<and> list_all (\<lambda>(k, obs). constructor_state (discovery obs)) (buffer w)
     \<and> list_all (\<lambda>obs. constructor_state (discovery obs)) (emitted w)
     \<and> star_first (emitted w)
     \<and> (\<not> discovery_written w \<longrightarrow> list_all blank_null (emitted w))"

text \<open>
  For the days: \<open>day_of\<close> is the Julian day of a record, \<open>line_of\<close> the string that
  the writer puts in the file for a record. \<open>day_inv\<close>: no two emitted records have
  the same day, every emitted day is in the list of written days, and the file holds
  the lines of the emitted records. \<open>extends w w'\<close>: from \<open>w\<close> to \<open>w'\<close> records were
  only added, none of a day that \<open>w\<close> had written. \<open>first_flushed\<close> is what
  \<^verbatim>\<open>_flush_observation\<close> makes of a record when no discovery has been written yet.
\<close>

definition day_of :: "Observation \<Rightarrow> rat" where
  "day_of obs = jd (date obs)"

definition line_of :: "MPCWriter \<Rightarrow> Observation \<Rightarrow> error + string" where
  "line_of w obs = map_sum id (\<lambda>l. l @ [CHR 0x0A]) (formatter w obs)"

definition day_inv :: "MPCWriter \<Rightarrow> bool" where
  "day_inv w \<longleftrightarrow>
     distinct (map day_of (emitted w))
     \<and> set (map day_of (emitted w)) \<subseteq> set (written_mpc_observations w)
     \<and> map Inr (filehandle w) = map (line_of w) (emitted w)"

definition extends :: "MPCWriter \<Rightarrow> MPCWriter \<Rightarrow> bool" where
  "extends w w' \<longleftrightarrow>
     formatter w' = formatter w
     \<and> set (written_mpc_observations w) \<subseteq> set (written_mpc_observations w')
     \<and> (\<exists>new. emitted w' = emitted w @ new
            \<and> (\<forall>obs \<in> set new. day_of obs \<notin> set (written_mpc_observations w)))"

definition first_flushed :: "bool \<Rightarrow> Observation \<Rightarrow> Observation" where
  "first_flushed adiscovery obs =
     (if adiscovery \<and> \<not> is_null (null_observation obs)
      then obs\<lparr>discovery := \<lparr>is_discovery = True, is_initial_discovery = True\<rparr>\<rparr>
      else obs)"

text \<open>A string that \<^verbatim>\<open>strip\<close> leaves as it is: it neither begins nor ends with a
  character of the stripped class.\<close>

definition stripped :: "(char \<Rightarrow> bool) \<Rightarrow> string \<Rightarrow> bool" where
  "stripped P t \<longleftrightarrow> t = [] \<or> (\<not> P (hd t) \<and> \<not> P (last t))"

section \<open>Theorems\<close>

subsection \<open>The columns of a line\<close>

lemma unpack_mpc_format:
  "length s = 80 \<Longrightarrow> struct_unpack mpc_format s =
     Inr [take 1 s, take 11 (drop 1 s), take 1 (drop 12 s), take 1 (drop 13 s), take 1 (drop 14 s),
          take 17 (drop 15 s), take 12 (drop 32 s), take 12 (drop 44 s), take 5 (drop 65 s),
          take 1 (drop 70 s), take 3 (drop 77 s)]"
  by (simp add: struct_unpack_def mpc_format_def)

lemma take_drop_take80:
  "n + k \<le> 80 \<Longrightarrow> take n (drop k (take 80 l)) = take n (drop k l)"
  by (simp add: drop_take min_def)

lemma drop_77_take_80: "drop 77 (take 80 l) = take 3 (drop 77 l)"
  by (simp add: drop_take)

lemma Observation_from_string_short:
  assumes "l = strip_char (CHR 0x0A) line" and "\<not> (0 < length l \<and> l ! 0 = CHR ''#'')" and "length l < 80"
  shows "Observation_from_string X line = Inr NoRecord"
  using assms by (auto simp add: Observation_from_string_def Let_def)

lemma Observation_from_string_long:
  assumes "l = strip_char (CHR 0x0A) line" and "\<not> (0 < length l \<and> l ! 0 = CHR ''#'')" and "80 \<le> length l"
  shows "Observation_from_string X line =
     (case Observation_init X (PyStr (take 1 l)) (Some (take 11 (drop 1 l)))
             (PyStr (take 1 (drop 12 l))) (Some (take 1 (drop 13 l))) (Some (take 1 (drop 14 l)))
             (take 17 (drop 15 l)) (take 12 (drop 32 l)) (take 12 (drop 44 l))
             (Some (take 5 (drop 65 l))) (take 1 (drop 70 l)) (take 3 (drop 77 l)) of
        Inl e \<Rightarrow> Inl e
      | Inr obsrec \<Rightarrow>
          (case MPCComment_from_string X (drop 81 l) of
             Inl e \<Rightarrow> Inl e
           | Inr cm \<Rightarrow> map_sum id Record (attach_comment obsrec cm)))"
proof -
  have len: "length (take 80 l) = 80" using assms(3) by simp
  show ?thesis
    using assms(2)
    by (auto simp add: Observation_from_string_def Let_def assms(1)[symmetric] len
        unpack_mpc_format [OF len] take_drop_take80 drop_77_take_80 simp del: length_take)
qed

lemma MPCNote_init_code: "MPCNote_init (Some u) t = Inr n \<Longrightarrow> code n = strip u"
  by (auto simp: MPCNote_init_def Let_def split: option.splits if_splits)

lemma NullObservation_init_str:
  "NullObservation_init (PyStr u) None = Inr n \<Longrightarrow> is_null n = (take 1 u \<in> set NULL_OBSERVATION_CHARACTERS)"
  by (auto simp: NullObservation_init_def Let_def split: if_splits)

lemma Observation_init_fields:
  assumes "Observation_init X (PyStr a0) (Some a1) a2 (Some a3) (Some a4) a5 a6 a7 (Some a8) a9 a10 = Inr r"
  shows "is_null (null_observation r) = (take 1 a0 \<in> set NULL_OBSERVATION_CHARACTERS)
       \<and> provisional_name r = strip a1
       \<and> Discovery_init a2 = Inr (discovery r)
       \<and> code (note1 r) = strip a3 \<and> code (note2 r) = strip a4
       \<and> Time_mpc X a5 (compute_precision a5) = Some (date r)
       \<and> date_precision r = compute_precision a5
       \<and> (\<exists>rp dp. coordinate_of_pair X a6 a7 = Inr (coordinate r, rp, dp))
       \<and> mag_of X (Some a8) = Inr (mag r, mag_precision r)
       \<and> band r = band_of a9
       \<and> observatory_code r = a10"
  using assms
  by (auto simp: Observation_init_def Let_def MPCNote_init_code NullObservation_init_str
      split: sum.splits option.splits if_splits prod.splits)


lemma set_is_discovery_True: "set_is_discovery (PyBool True) d = Inr (d\<lparr>is_discovery := True\<rparr>)"
  by (simp add: set_is_discovery_def py_in_def)

lemma attach_comment_fields:
  assumes "attach_comment obs cm = Inr r"
  shows "null_observation r = null_observation obs \<and> provisional_name r = provisional_name obs
       \<and> is_initial_discovery (discovery r) = is_initial_discovery (discovery obs)
       \<and> (is_discovery (discovery obs) \<longrightarrow> is_discovery (discovery r))
       \<and> note1 r = note1 obs \<and> note2 r = note2 obs \<and> date r = date obs
       \<and> date_precision r = date_precision obs \<and> coordinate r = coordinate obs
       \<and> mag r = mag obs \<and> mag_precision r = mag_precision obs \<and> band r = band obs
       \<and> observatory_code r = observatory_code obs
       \<and> (comment r = cm
          \<or> (\<exists>c. cm = CObj c \<and> c_source_name c = None
                 \<and> comment r = CObj (c\<lparr>c_source_name := Some (provisional_name obs)\<rparr>)))"
  using assms
  by (auto simp: attach_comment_def Let_def set_is_discovery_True
      split: comment_val.splits option.splits list.splits if_splits)

lemma Discovery_init_str:
  "Discovery_init (PyStr u) = Inr d \<Longrightarrow>
     is_initial_discovery d = (u = ''*'') \<and> is_discovery d = (u = ''*'' \<or> u = ''&'')"
  by (auto simp: Discovery_init_def set_is_discovery_def set_is_initial_discovery_def py_in_def
      split: if_splits)

lemma map_sum_Record: "map_sum id Record s = Inr (Record r) \<longleftrightarrow> s = Inr r"
  by (cases s) auto

text \<open>
  C6 (as amended). For a line that does not start with the comment marker: if it has
  fewer than 80 columns, \<^verbatim>\<open>from_string\<close> returns \<^verbatim>\<open>None\<close>; if it returns a record,
  the line has at least 80 columns, the fields of the record are read from the fixed
  columns of the format, and the comment of the record is the parse of the text from
  column 82 on (the character in column 81 is dropped), with the provisional name
  filled in as the source name when the comment has none.
\<close>

theorem Observation_from_string_columns:
  assumes l: "l = strip_char (CHR 0x0A) line"
    and nc: "\<not> (0 < length l \<and> l ! 0 = CHR ''#'')"
  shows "(length l < 80 \<longrightarrow> Observation_from_string X line = Inr NoRecord)
       \<and> (\<forall>r. Observation_from_string X line = Inr (Record r) \<longrightarrow>
            80 \<le> length l
          \<and> is_null (null_observation r) = (take 1 l \<in> set NULL_OBSERVATION_CHARACTERS)
          \<and> provisional_name r = strip (take 11 (drop 1 l))
          \<and> is_initial_discovery (discovery r) = (take 1 (drop 12 l) = ''*'')
          \<and> code (note1 r) = strip (take 1 (drop 13 l))
          \<and> code (note2 r) = strip (take 1 (drop 14 l))
          \<and> Time_mpc X (take 17 (drop 15 l)) (compute_precision (take 17 (drop 15 l)))
              = Some (date r)
          \<and> (\<exists>rp dp. coordinate_of_pair X (take 12 (drop 32 l)) (take 12 (drop 44 l))
                       = Inr (coordinate r, rp, dp))
          \<and> mag_of X (Some (take 5 (drop 65 l))) = Inr (mag r, mag_precision r)
          \<and> band r = band_of (take 1 (drop 70 l))
          \<and> observatory_code r = take 3 (drop 77 l)
          \<and> (\<exists>cm. MPCComment_from_string X (drop 81 l) = Inr cm
                \<and> (comment r = cm
                   \<or> (\<exists>c. cm = CObj c \<and> c_source_name c = None
                          \<and> comment r = CObj (c\<lparr>c_source_name := Some (provisional_name r)\<rparr>)))))"
proof (intro conjI allI impI)
  assume "length l < 80"
  with l nc show "Observation_from_string X line = Inr NoRecord"
    by (rule Observation_from_string_short)
next
  fix r
  assume r: "Observation_from_string X line = Inr (Record r)"
  show len: "80 \<le> length l"
  proof (rule ccontr)
    assume "\<not> 80 \<le> length l"
    then have "length l < 80" by simp
    with l nc have "Observation_from_string X line = Inr NoRecord"
      by (rule Observation_from_string_short)
    with r show False by simp
  qed
  from r Observation_from_string_long [OF l nc len, of X]
  obtain obs cm where
    obs: "Observation_init X (PyStr (take 1 l)) (Some (take 11 (drop 1 l)))
             (PyStr (take 1 (drop 12 l))) (Some (take 1 (drop 13 l))) (Some (take 1 (drop 14 l)))
             (take 17 (drop 15 l)) (take 12 (drop 32 l)) (take 12 (drop 44 l))
             (Some (take 5 (drop 65 l))) (take 1 (drop 70 l)) (take 3 (drop 77 l)) = Inr obs"
    and cm: "MPCComment_from_string X (drop 81 l) = Inr cm"
    and at: "attach_comment obs cm = Inr r"
    by (auto simp: map_sum_Record split: sum.splits)
  note f = Observation_init_fields [OF obs]
  note a = attach_comment_fields [OF at]
  show "is_null (null_observation r) = (take 1 l \<in> set NULL_OBSERVATION_CHARACTERS)"
    using f a by simp
  show "provisional_name r = strip (take 11 (drop 1 l))" using f a by simp
  have "Discovery_init (PyStr (take 1 (drop 12 l))) = Inr (discovery obs)" using f by simp
  then have "is_initial_discovery (discovery obs) = (take 1 (drop 12 l) = ''*'')"
    by (simp add: Discovery_init_str)
  then show "is_initial_discovery (discovery r) = (take 1 (drop 12 l) = ''*'')" using a by simp
  show "code (note1 r) = strip (take 1 (drop 13 l))" using f a by simp
  show "code (note2 r) = strip (take 1 (drop 14 l))" using f a by simp
  show "Time_mpc X (take 17 (drop 15 l)) (compute_precision (take 17 (drop 15 l))) = Some (date r)"
    using f a by simp
  show "\<exists>rp dp. coordinate_of_pair X (take 12 (drop 32 l)) (take 12 (drop 44 l))
                       = Inr (coordinate r, rp, dp)" using f a by simp
  show "mag_of X (Some (take 5 (drop 65 l))) = Inr (mag r, mag_precision r)" using f a by simp
  show "band r = band_of (take 1 (drop 70 l))" using f a by simp
  show "observatory_code r = take 3 (drop 77 l)" using f a by simp
  show "\<exists>cm. MPCComment_from_string X (drop 81 l) = Inr cm
                \<and> (comment r = cm
                   \<or> (\<exists>c. cm = CObj c \<and> c_source_name c = None
                          \<and> comment r = CObj (c\<lparr>c_source_name := Some (provisional_name r)\<rparr>)))"
    using cm a by auto
qed




subsection \<open>The scenario line\<close>

lemma OSSOSComment_init_defaults:
  "\<exists>c. OSSOSComment_init X k v fr sn pn mn xv yv PyNone (PyInt 0) mg mu cm = Inr c"
  by (simp add: OSSOSComment_init_def Let_def set_c_plate_uncertainty_def
      set_c_astrometric_level_def)

lemma MPCComment_from_string_empty: "MPCComment_from_string X [] = Inr (CStr [])"
  by (simp add: MPCComment_from_string_def TNOdbComment_from_string_def
      OSSOSComment_from_string_def)

lemma strip_example: "strip_char (CHR 0x0A) example_line = example_line"
  by (simp add: example_line_def strip_char_def strip_by_def lstrip_by_def rstrip_by_def)

lemma scenario_line_raises:
  "Observation_from_string X scenario_line = Inl (MPCFieldFormatError ''discovery'')"
  by (simp add: scenario_line_def Observation_from_string_def strip_char_def strip_by_def
      lstrip_by_def rstrip_by_def struct_unpack_def mpc_format_def Observation_init_def
      NullObservation_init_def NULL_OBSERVATION_CHARACTERS_def Discovery_init_def
      set_is_discovery_def py_in_def)

text \<open>
  C9. The scenario line as the specification writes it has 82 characters; its first
  80 columns put \<open>A\<close> in column 13, the discovery column, and \<^verbatim>\<open>from_string\<close>
  raises the field error of \<^verbatim>\<open>Discovery\<close>.
\<close>

theorem scenario_line_counterexample:
  "length scenario_line = 82
   \<and> Observation_from_string example_prims scenario_line = Inl (MPCFieldFormatError ''discovery'')"
  by (simp add: scenario_line_raises) (simp add: scenario_line_def)

text \<open>
  C9 (as amended). The 80-column line with the same fields in the columns of the
  format parses to a record with the provisional name \<open>K13T01\<close>, the initial
  discovery flag, the notes \<open>A\<close> and \<open>C\<close> and the observatory code \<open>568\<close>,
  whenever the external primitives accept its date, its coordinates and its
  magnitude.
\<close>

theorem example_line_parses:
  assumes tm: "Time_mpc X ''2013 10 05.412683'' 6 = Some tm"
    and co: "coordinate_of_pair X ''12 34 45.671'' ''-20 28 15.90'' = Inr (c, rp, dp)"
    and fl: "float_of_str X ''20.63'' = Some m"
  shows "\<exists>r. Observation_from_string X example_line = Inr (Record r)
            \<and> provisional_name r = ''K13T01''
            \<and> is_initial_discovery (discovery r)
            \<and> code (note1 r) = ''A'' \<and> code (note2 r) = ''C''
            \<and> observatory_code r = ''568''"
proof -
  have cp: "compute_precision ''2013 10 05.412683'' = 6"
    by (simp add: compute_precision_def strip_char_def strip_by_def lstrip_by_def rstrip_by_def
        rfind_def)
  have cp2: "compute_precision ''20.63'' = 2"
    by (simp add: compute_precision_def strip_char_def strip_by_def lstrip_by_def rstrip_by_def
        rfind_def)
  have n0: "NullObservation_init (PyStr '' '') None
              = Inr \<lparr>null_observation_character = ''!'', is_null = False\<rparr>"
    by (simp add: NullObservation_init_def NULL_OBSERVATION_CHARACTERS_def)
  have d0: "Discovery_init (PyStr ''*'') = Inr \<lparr>is_discovery = True, is_initial_discovery = True\<rparr>"
    by (simp add: Discovery_init_def set_is_discovery_def set_is_initial_discovery_def py_in_def)
  have sA: "strip ''A'' = ''A''" and sC: "strip ''C'' = ''C''"
    and sp: "strip ''    K13T01 '' = ''K13T01''"
    by (simp_all add: strip_def strip_by_def lstrip_by_def rstrip_by_def is_space_def)
  have n1: "MPCNote_init (Some ''A'') ''Note1'' = Inr \<lparr>note_type = ''Note1'', code = ''A''\<rparr>"
    by (simp add: MPCNote_init_def MPCNOTES_def sA isdigit_def is_digit_def)
  have n2: "MPCNote_init (Some ''C'') ''Note2'' = Inr \<lparr>note_type = ''Note2'', code = ''C''\<rparr>"
    by (simp add: MPCNote_init_def MPCNOTES_def sC isdigit_def is_digit_def)
  have mg: "\<exists>mv mp. mag_of X (Some ''20.63'') = Inr (mv, mp)"
    by (simp add: mag_of_def strip_char_def strip_by_def lstrip_by_def rstrip_by_def fl)
  obtain cc where cc: "OSSOSComment_init X OSSOS ''O'' None (Some ''    K13T01 '') [] ''A'' PyNone PyNone
      PyNone (PyInt 0) (PyStr ''20.63'') (PyInt (- 1)) None = Inr cc"
    using OSSOSComment_init_defaults by blast
  from mg obtain mv mp where mg: "mag_of X (Some ''20.63'') = Inr (mv, mp)" by blast
  have init: "\<exists>r. Observation_init X (PyStr '' '') (Some ''    K13T01 '') (PyStr ''*'') (Some ''A'')
      (Some ''C'') ''2013 10 05.412683'' ''12 34 45.671'' ''-20 28 15.90'' (Some ''20.63'') ''R'' ''568''
      = Inr r \<and> provisional_name r = ''K13T01'' \<and> is_initial_discovery (discovery r)
            \<and> code (note1 r) = ''A'' \<and> code (note2 r) = ''C''
            \<and> observatory_code r = ''568''"
    by (simp add: Observation_init_def n0 d0 n1 n2 sp cp tm co mg cc Let_def)
  have len: "80 \<le> length example_line" by (simp add: example_line_def)
  have nc: "\<not> (0 < length example_line \<and> example_line ! 0 = CHR ''#'')"
    by (simp add: example_line_def)
  from init obtain r where r: "Observation_init X (PyStr '' '') (Some ''    K13T01 '') (PyStr ''*'') (Some ''A'')
      (Some ''C'') ''2013 10 05.412683'' ''12 34 45.671'' ''-20 28 15.90'' (Some ''20.63'') ''R'' ''568''
      = Inr r" and f: "provisional_name r = ''K13T01''" "is_initial_discovery (discovery r)"
      "code (note1 r) = ''A''" "code (note2 r) = ''C''" "observatory_code r = ''568''"
    by blast
  have "Observation_from_string X example_line = Inr (Record (r\<lparr>comment := CStr []\<rparr>))"
    using Observation_from_string_long [OF strip_example [symmetric] nc len, of X]
    by (simp add: example_line_def r MPCComment_from_string_empty attach_comment_def)
  with f show ?thesis by simp
qed

subsection \<open>Concrete runs of \<^verbatim>\<open>from_string\<close>\<close>

lemma example_fields_init:
  assumes tm: "Time_mpc X ''2013 10 05.412683'' 6 = Some tm"
    and co: "coordinate_of_pair X ''12 34 45.671'' ''-20 28 15.90'' = Inr (c, rp, dp)"
    and fl: "float_of_str X ''20.63'' = Some m" and m: "0 \<le> m"
  shows "\<exists>r. Observation_init X (PyStr '' '') (Some ''    K13T01 '') (PyStr ''*'') (Some ''A'')
      (Some ''C'') ''2013 10 05.412683'' ''12 34 45.671'' ''-20 28 15.90'' (Some ''20.63'') ''R'' ''568''
      = Inr r \<and> r\<lparr>comment := CStr []\<rparr> = example_record\<lparr>date := tm, coordinate := c, mag := Some m\<rparr>"
proof -
  have cp: "compute_precision ''2013 10 05.412683'' = 6"
    by (simp add: compute_precision_def strip_char_def strip_by_def lstrip_by_def rstrip_by_def
        rfind_def)
  have cp2: "compute_precision ''20.63'' = 2"
    by (simp add: compute_precision_def strip_char_def strip_by_def lstrip_by_def rstrip_by_def
        rfind_def)
  have n0: "NullObservation_init (PyStr '' '') None
              = Inr \<lparr>null_observation_character = ''!'', is_null = False\<rparr>"
    by (simp add: NullObservation_init_def NULL_OBSERVATION_CHARACTERS_def)
  have d0: "Discovery_init (PyStr ''*'') = Inr \<lparr>is_discovery = True, is_initial_discovery = True\<rparr>"
    by (simp add: Discovery_init_def set_is_discovery_def set_is_initial_discovery_def py_in_def)
  have sA: "strip ''A'' = ''A''" and sC: "strip ''C'' = ''C''"
    and sp: "strip ''    K13T01 '' = ''K13T01''"
    by (simp_all add: strip_def strip_by_def lstrip_by_def rstrip_by_def is_space_def)
  have n1: "MPCNote_init (Some ''A'') ''Note1'' = Inr \<lparr>note_type = ''Note1'', code = ''A''\<rparr>"
    by (simp add: MPCNote_init_def MPCNOTES_def sA isdigit_def is_digit_def)
  have n2: "MPCNote_init (Some ''C'') ''Note2'' = Inr \<lparr>note_type = ''Note2'', code = ''C''\<rparr>"
    by (simp add: MPCNote_init_def MPCNOTES_def sC isdigit_def is_digit_def)
  have mg: "mag_of X (Some ''20.63'') = Inr (Some m, 1)"
    using m by (simp add: mag_of_def strip_char_def strip_by_def lstrip_by_def rstrip_by_def fl cp2)
  have bd: "band_of ''R'' = Some ''R''"
    by (simp add: band_of_def strip_char_def strip_by_def lstrip_by_def rstrip_by_def)
  obtain cc where cc: "OSSOSComment_init X OSSOS ''O'' None (Some ''    K13T01 '') [] ''A'' PyNone PyNone
      PyNone (PyInt 0) (PyStr ''20.63'') (PyInt (- 1)) None = Inr cc"
    using OSSOSComment_init_defaults by blast
  show ?thesis
    by (simp add: Observation_init_def n0 d0 n1 n2 sp cp tm co mg cc bd example_record_def)
qed

lemma example_line_general:
  assumes tm: "Time_mpc X ''2013 10 05.412683'' 6 = Some tm"
    and co: "coordinate_of_pair X ''12 34 45.671'' ''-20 28 15.90'' = Inr (c, rp, dp)"
    and fl: "float_of_str X ''20.63'' = Some m" and m: "0 \<le> m"
    and sfx: "sfx = [] \<or> sfx = ''X''"
  shows "Observation_from_string X (example_line @ sfx)
           = Inr (Record (example_record\<lparr>date := tm, coordinate := c, mag := Some m\<rparr>))"
proof -
  from example_fields_init [OF tm co fl m] obtain r where
    r: "Observation_init X (PyStr '' '') (Some ''    K13T01 '') (PyStr ''*'') (Some ''A'')
      (Some ''C'') ''2013 10 05.412683'' ''12 34 45.671'' ''-20 28 15.90'' (Some ''20.63'') ''R'' ''568''
      = Inr r"
    and e: "r\<lparr>comment := CStr []\<rparr> = example_record\<lparr>date := tm, coordinate := c, mag := Some m\<rparr>"
    by blast
  have st: "example_line @ sfx = strip_char (CHR 0x0A) (example_line @ sfx)"
    using sfx by (auto simp add: example_line_def strip_char_def strip_by_def lstrip_by_def rstrip_by_def)
  have len: "80 \<le> length (example_line @ sfx)" by (simp add: example_line_def)
  have nc: "\<not> (0 < length (example_line @ sfx) \<and> (example_line @ sfx) ! 0 = CHR ''#'')"
    by (simp add: example_line_def)
  have "Observation_from_string X (example_line @ sfx) = Inr (Record (r\<lparr>comment := CStr []\<rparr>))"
    using Observation_from_string_long [OF st nc len, of X] sfx
    by (auto simp add: example_line_def r MPCComment_from_string_empty attach_comment_def)
  with e show ?thesis by simp
qed

lemma example_prims_accepts:
  "Time_mpc example_prims ''2013 10 05.412683'' 6 = Some example_time"
  "coordinate_of_pair example_prims ''12 34 45.671'' ''-20 28 15.90'' = Inr (example_coordinate, 3, 2)"
  "float_of_str example_prims ''20.63'' = Some (2063 / 100)"
  by (simp add: example_prims_def example_dates_def) code_simp+

lemma example_record_same:
  "example_record\<lparr>date := example_time, coordinate := example_coordinate, mag := Some (2063 / 100)\<rparr>
     = example_record"
  by (simp add: example_record_def)

lemma example_line_record:
  "Observation_from_string example_prims example_line = Inr (Record example_record)"
  using example_line_general [OF example_prims_accepts, of "[]"] by (simp add: example_record_same)

lemma example_line_X_record:
  "Observation_from_string example_prims (example_line @ ''X'') = Inr (Record example_record)"
  using example_line_general [OF example_prims_accepts, of "''X''"] by (simp add: example_record_same)

theorem example_line_parses_witness:
  "Time_mpc example_prims ''2013 10 05.412683'' 6 = Some example_time
   \<and> coordinate_of_pair example_prims ''12 34 45.671'' ''-20 28 15.90''
       = Inr (example_coordinate, 3, 2)
   \<and> float_of_str example_prims ''20.63'' = Some (2063 / 100)
   \<and> (\<exists>r. Observation_from_string example_prims example_line = Inr (Record r)
            \<and> provisional_name r = ''K13T01''
            \<and> is_initial_discovery (discovery r)
            \<and> code (note1 r) = ''A'' \<and> code (note2 r) = ''C''
            \<and> observatory_code r = ''568'')"
  using example_line_parses [OF example_prims_accepts] example_prims_accepts by simp

text \<open>
  C6. The claim as stated fails for the character in column 81: on the 80-column
  example line followed by \<open>X\<close>, \<^verbatim>\<open>from_string\<close> returns the record of the line
  without it, with an empty comment, although the text beyond column 80 is \<open>X\<close> and
  parses to the comment \<open>X\<close>.
\<close>

theorem column_81_counterexample:
  "Observation_from_string example_prims (example_line @ ''X'') = Inr (Record example_record)
   \<and> comment example_record = CStr []
   \<and> MPCComment_from_string example_prims (drop 80 (example_line @ ''X'')) = Inr (CStr ''X'')"
proof -
  have "MPCComment_from_string example_prims (drop 80 (example_line @ ''X'')) = Inr (CStr ''X'')"
    by code_simp
  then show ?thesis by (simp add: example_line_X_record) (simp add: example_record_def)
qed

theorem Observation_from_string_columns_witness:
  "example_line @ ''X'' = strip_char (CHR 0x0A) (example_line @ ''X'')
   \<and> \<not> (0 < length (example_line @ ''X'') \<and> (example_line @ ''X'') ! 0 = CHR ''#'')
   \<and> 80 \<le> length (example_line @ ''X'')
   \<and> provisional_name example_record = strip (take 11 (drop 1 (example_line @ ''X'')))
   \<and> observatory_code example_record = take 3 (drop 77 (example_line @ ''X''))
   \<and> (\<exists>cm. MPCComment_from_string example_prims (drop 81 (example_line @ ''X'')) = Inr cm
          \<and> comment example_record = cm)"
proof -
  have st: "example_line @ ''X'' = strip_char (CHR 0x0A) (example_line @ ''X'')"
    by (simp add: example_line_def strip_char_def strip_by_def lstrip_by_def rstrip_by_def)
  have nc: "\<not> (0 < length (example_line @ ''X'') \<and> (example_line @ ''X'') ! 0 = CHR ''#'')"
    by (simp add: example_line_def)
  have nn: "\<And>c. comment example_record \<noteq> CObj c" by (simp add: example_record_def)
  from Observation_from_string_columns [OF st nc, of example_prims] example_line_X_record nn
  show ?thesis using st nc by auto
qed

subsection \<open>The comment dispatcher\<close>

text \<open>
  C4. The dispatcher raises on a comment of one space: no structured variant parses
  it, and \<^verbatim>\<open>OSSOSComment.from_string\<close> leaves with \<^verbatim>\<open>IndexError\<close>, which the
  dispatcher's \<^verbatim>\<open>except ValueError\<close> does not take.
\<close>

theorem MPCComment_from_string_blank:
  "MPCComment_from_string X '' '' = Inl IndexError"
  by (simp add: MPCComment_from_string_def TNOdbComment_from_string_def
      OSSOSComment_from_string_def ossos_fixed_def struct_unpack_def ossos_comment_format_def
      ossos_separated_def split_ws_def is_space_def)

lemma MPCComment_from_string_fallback:
  assumes "TNOdbComment_from_string X line = Inl ValueError"
    and "OSSOSComment_from_string X OSSOS line = Inl ValueError"
    and "RealOSSOSComment_from_string X line = Inl ValueError"
    and "CFEPSComment_from_string X line = Inl ValueError"
  shows "MPCComment_from_string X line = Inr (CStr line)"
  using assms by (simp add: MPCComment_from_string_def)

lemma MPCComment_from_string_TNOdb_first:
  assumes "TNOdbComment_from_string X line = Inr c"
  shows "MPCComment_from_string X line = Inr (CObj c)"
  using assms by (simp add: MPCComment_from_string_def)

lemma OSSOSComment_from_string_percent:
  "OSSOSComment_from_string X k ''%'' = Inl IndexError"
  by (simp add: OSSOSComment_from_string_def ossos_fixed_def struct_unpack_def
      ossos_comment_format_def ossos_separated_def split_ws_def)

text \<open>
  C5. A comment with the length and the index of the database layout whose comment
  text is \<open>%\<close>: the database parser leaves with \<^verbatim>\<open>IndexError\<close>, and so does
  the dispatcher.
\<close>

theorem tnodb_percent_line_raises:
  "56 \<le> length tnodb_percent_line
   \<and> match_index (strip (take 14 tnodb_percent_line))
   \<and> TNOdbComment_from_string X tnodb_percent_line = Inl IndexError
   \<and> MPCComment_from_string X tnodb_percent_line = Inl IndexError"
proof -
  have s1: "strip (take 14 tnodb_percent_line) = ''12345678_abc_d''"
    by (simp add: tnodb_percent_line_def strip_def strip_by_def lstrip_by_def rstrip_by_def
        is_space_def)
  have s2: "strip (drop 56 tnodb_percent_line) = ''%''"
    by (simp add: tnodb_percent_line_def strip_def strip_by_def lstrip_by_def rstrip_by_def
        is_space_def)
  have m: "match_index ''12345678_abc_d''"
    by (simp add: match_index_def is_digit_def is_space_def)
  have len: "length tnodb_percent_line = 57" by (simp add: tnodb_percent_line_def)
  have t: "TNOdbComment_from_string X tnodb_percent_line = Inl IndexError"
    by (simp add: TNOdbComment_from_string_def len s1 s2 m Let_def
        OSSOSComment_from_string_percent)
  show ?thesis by (simp add: len s1 m t MPCComment_from_string_def)
qed

text \<open>
  C8. For a name that the index does not know, \<^verbatim>\<open>get_aliases\<close> returns the string
  itself, and \<^verbatim>\<open>is_same\<close> tests for a substring: \<open>alias12\<close> is not in the index
  and is reported the same as \<open>alias1\<close>.
\<close>

theorem example_index_unknown_name:
  "names example_index ''alias12'' = None
   \<and> get_aliases example_index ''alias1'' = Inr (Group [''master'', ''alias1''])
   \<and> get_aliases example_index ''alias12'' = Inr (Name ''alias12'')
   \<and> is_same example_index ''alias12'' ''alias1'' = Inr True"
  by code_simp


subsection \<open>The name index\<close>

lemma add_aliases_canonical_first:
  "canonical_first idx \<Longrightarrow> \<exists>l. index idx master_name = Some (master_name # l) \<Longrightarrow>
     canonical_first (add_aliases master_name rest idx)"
proof (induction master_name rest idx rule: add_aliases.induct)
  case (1 master_name rest idx)
  show ?case
  proof (cases "rest = []")
    case True
    with "1.prems" show ?thesis by (simp add: add_aliases.simps)
  next
    case False
    let ?this = "strip (take MAX_NAME_LENGTH rest)"
    let ?idx = "idx\<lparr>index := (index idx)(master_name \<mapsto>
                      (case index idx master_name of None \<Rightarrow> [] | Some l \<Rightarrow> l) @ [?this]),
                  names := (names idx)(?this \<mapsto> master_name)\<rparr>"
    from "1.prems" have a: "canonical_first ?idx"
      by (auto simp: canonical_first_def)
    from "1.prems" have b: "\<exists>l. index ?idx master_name = Some (master_name # l)"
      by auto
    from "1.IH" [OF False refl a b] False show ?thesis
      by (simp add: add_aliases.simps [of master_name rest idx] Let_def)
  qed
qed

lemma add_line_canonical_first:
  "canonical_first idx \<Longrightarrow> canonical_first (add_line idx line)"
  unfolding add_line_def Let_def
  by (rule add_aliases_canonical_first) (auto simp: canonical_first_def)

lemma Index_init_canonical_first: "canonical_first (Index_init lines)"
proof -
  have "canonical_first idx \<Longrightarrow> canonical_first (foldl add_line idx lines)" for idx
    by (induction lines arbitrary: idx) (auto simp: add_line_canonical_first)
  then show ?thesis by (simp add: Index_init_def canonical_first_def)
qed

lemma get_aliases_known:
  assumes "names (Index_init lines) name = Some master"
  shows "\<exists>l. get_aliases (Index_init lines) name = Inr (Group (master # l))"
proof -
  from Index_init_canonical_first [of lines] assms
  obtain l where "index (Index_init lines) master = Some (master # l)"
    unfolding canonical_first_def by blast
  with assms show ?thesis by (simp add: get_aliases_def)
qed

lemma get_aliases_unknown:
  assumes "names idx name = None"
  shows "get_aliases idx name = Inr (Name name)"
    and "is_same idx name name2 = Inr (str_contains name name2)"
  using assms by (simp_all add: get_aliases_def is_same_def)

subsection \<open>Flags and magnitudes of comments\<close>

text \<open>
  C10. Every flag string the constructor of \<^verbatim>\<open>TNOdbFlags\<close> accepts (the twelve
  character strings of binary digits among them, also those that start with \<open>1\<close>)
  gives an object whose \<^verbatim>\<open>is_discovery\<close> is \<open>False\<close>, and assigning any value to
  \<^verbatim>\<open>is_discovery\<close> returns the object with the same flag string.
\<close>

theorem TNOdbFlags_is_discovery_always_False:
  assumes "TNOdbFlags_init s = Inr f"
  shows "TNOdbFlags_is_discovery f = Inr False
       \<and> TNOdbFlags_set_is_discovery v f = Inr f
       \<and> flags_str f = s"
proof -
  from assms have m: "match_flags s" and f: "f = \<lparr>flags_str = s\<rparr>"
    by (auto simp: TNOdbFlags_init_def split: if_splits)
  from m obtain c cs where s: "s = c # cs"
    by (cases s) (auto simp: match_flags_def)
  show ?thesis
    by (simp add: f s TNOdbFlags_is_discovery_def TNOdbFlags_set_is_discovery_def)
qed

theorem TNOdbFlags_is_discovery_witness:
  "TNOdbFlags_init ''100000000000'' = Inr \<lparr>flags_str = ''100000000000''\<rparr>
   \<and> TNOdbFlags_is_discovery \<lparr>flags_str = ''100000000000''\<rparr> = Inr False
   \<and> TNOdbFlags_set_is_discovery (PyBool True) \<lparr>flags_str = ''100000000000''\<rparr>
       = Inr \<lparr>flags_str = ''100000000000''\<rparr>"
proof -
  have h: "TNOdbFlags_init ''100000000000'' = Inr \<lparr>flags_str = ''100000000000''\<rparr>"
    by (simp add: TNOdbFlags_init_def match_flags_def)
  from TNOdbFlags_is_discovery_always_False [OF h, of "PyBool True"] h
  show ?thesis by simp
qed

lemma example_prims_floats:
  "float_of_str example_prims ''35.0'' = Some 35"
  "float_of_str example_prims ''22.51'' = Some (2251 / 100)"
  "float_of_str example_prims ''bright'' = None"
  by code_simp+

text \<open>
  C7. Assigning a value of any type to the magnitude of a comment. When
  \<^verbatim>\<open>float(value)\<close> is a number strictly between 15 and 30, that number is stored and
  the photometry note becomes \<open>Y\<close>; when it is any other number (35.0 for one), the
  magnitude is left unset and the note becomes \<open>Z\<close>, and so it is when the
  conversion raises (\<open>None\<close>, a string that is no number).
\<close>

theorem set_c_mag_range:
  "(\<forall>m. py_float X v = Inr m \<longrightarrow>
        c_mag (set_c_mag X v c) = (if 15 < m \<and> m < 30 then Some m else None)
      \<and> c_photometry_note (set_c_mag X v c) = (if 15 < m \<and> m < 30 then ''Y'' else ''Z''))
   \<and> (\<forall>e. py_float X v = Inl e \<longrightarrow>
        c_mag (set_c_mag X v c) = None \<and> c_photometry_note (set_c_mag X v c) = ''Z'')"
  by (simp add: set_c_mag_def)

theorem set_c_mag_range_witness:
  "c_mag (set_c_mag example_prims (PyFloat 35) example_comment) = None
   \<and> c_photometry_note (set_c_mag example_prims (PyFloat 35) example_comment) = ''Z''
   \<and> c_mag (set_c_mag example_prims (PyStr ''35.0'') example_comment) = None
   \<and> c_photometry_note (set_c_mag example_prims (PyStr ''35.0'') example_comment) = ''Z''
   \<and> c_mag (set_c_mag example_prims (PyInt 35) example_comment) = None
   \<and> c_photometry_note (set_c_mag example_prims (PyInt 35) example_comment) = ''Z''
   \<and> c_mag (set_c_mag example_prims (PyStr ''22.51'') example_comment) = Some (2251 / 100)
   \<and> c_photometry_note (set_c_mag example_prims (PyStr ''22.51'') example_comment) = ''Y''
   \<and> c_mag (set_c_mag example_prims (PyInt 22) example_comment) = Some 22
   \<and> c_photometry_note (set_c_mag example_prims (PyInt 22) example_comment) = ''Y''
   \<and> c_mag (set_c_mag example_prims (PyStr ''bright'') example_comment) = None
   \<and> c_photometry_note (set_c_mag example_prims (PyStr ''bright'') example_comment) = ''Z''
   \<and> c_mag (set_c_mag example_prims PyNone example_comment) = None
   \<and> c_photometry_note (set_c_mag example_prims PyNone example_comment) = ''Z''"
proof -
  have p: "py_float example_prims (PyStr ''22.51'') = Inr (2251 / 100)"
    by (simp add: example_prims_floats)
  from set_c_mag_range [of example_prims "PyStr ''22.51''" example_comment,
      THEN conjunct1, THEN spec, THEN mp, OF p]
  have "c_mag (set_c_mag example_prims (PyStr ''22.51'') example_comment) = Some (2251 / 100)
   \<and> c_photometry_note (set_c_mag example_prims (PyStr ''22.51'') example_comment) = ''Y''"
    by simp
  with set_c_mag_range [of example_prims "PyFloat 35" example_comment]
    set_c_mag_range [of example_prims "PyStr ''35.0''" example_comment]
    set_c_mag_range [of example_prims "PyInt 35" example_comment]
    set_c_mag_range [of example_prims "PyInt 22" example_comment]
    set_c_mag_range [of example_prims "PyStr ''bright''" example_comment]
    set_c_mag_range [of example_prims PyNone example_comment]
  show ?thesis by (simp add: example_prims_floats)
qed

subsection \<open>The discovery marker of the writer\<close>

lemma Discovery_init_True:
  "Discovery_init (PyBool True) = Inr \<lparr>is_discovery = True, is_initial_discovery = True\<rparr>"
  by (simp add: Discovery_init_def set_is_discovery_def set_is_initial_discovery_def py_in_def)

lemma set_is_initial_discovery_False:
  "set_is_initial_discovery (PyBool False) d = d\<lparr>is_initial_discovery := False\<rparr>"
  by (simp add: set_is_initial_discovery_def py_in_def)

lemma star_first_all_blank: "list_all blank_null es \<Longrightarrow> star_first (es @ [e])"
  by (induction es) auto

lemma star_first_append:
  "star_first es \<Longrightarrow> \<not> is_initial_discovery (discovery e) \<Longrightarrow> star_first (es @ [e])"
  by (induction es) auto

lemma flush_observation_discovery_inv:
  assumes "discovery_inv w" and "constructor_state (discovery obs)"
    and "flush_observation w obs = (obs', w', err)"
  shows "discovery_inv w' \<and> constructor_state (discovery obs') \<and> buffer w' = buffer w"
  using assms
  by (auto simp: flush_observation_def discovery_inv_def Let_def Discovery_init_True
      set_is_initial_discovery_False constructor_state_def star_first_all_blank
      star_first_append blank_null_def
      split: if_splits sum.splits prod.splits)


lemma set_dict_set: "set (dict_set k v kvs) \<subseteq> insert (k, v) (set kvs)"
  by (induction kvs) (auto split: if_splits)

lemma list_all_dict_set: "list_all P kvs \<Longrightarrow> P (k, v) \<Longrightarrow> list_all P (dict_set k v kvs)"
  using set_dict_set [of k v kvs] by (auto simp: list_all_iff)

lemma flush_keys_discovery_inv:
  "discovery_inv w \<Longrightarrow> flush_keys w ks = (w', err) \<Longrightarrow> discovery_inv w'"
proof (induction ks arbitrary: w)
  case Nil
  then show ?case by simp
next
  case (Cons k ks)
  show ?case
  proof (cases "map_of (buffer w) k")
    case None
    with Cons show ?thesis by simp
  next
    case (Some obs)
    then have "(k, obs) \<in> set (buffer w)" by (rule map_of_SomeD)
    with Cons.prems(1) have cs: "constructor_state (discovery obs)"
      by (auto simp: discovery_inv_def list_all_iff)
    obtain obs1 w1 e1 where f: "flush_observation w obs = (obs1, w1, e1)"
      by (cases "flush_observation w obs") auto
    from flush_observation_discovery_inv [OF Cons.prems(1) cs f]
    have i1: "discovery_inv w1" and c1: "constructor_state (discovery obs1)" by simp_all
    let ?w2 = "w1\<lparr>buffer := dict_set k obs1 (buffer w1)\<rparr>"
    from i1 c1 have i2: "discovery_inv ?w2"
      by (simp add: discovery_inv_def list_all_dict_set)
    show ?thesis
    proof (cases e1)
      case None
      with Cons.prems(2) Some f have "flush_keys ?w2 ks = (w', err)" by simp
      with i2 show ?thesis by (rule Cons.IH)
    next
      case (Some e)
      with Cons.prems(2) \<open>map_of (buffer w) k = Some obs\<close> f have "w' = ?w2" by simp
      with i2 show ?thesis by simp
    qed
  qed
qed

lemma MPCWriter_flush_discovery_inv: "discovery_inv w \<Longrightarrow> discovery_inv (fst (MPCWriter_flush w))"
  using flush_keys_discovery_inv [of w "sort (map fst (buffer w))"]
  by (cases "MPCWriter_flush w") (auto simp: MPCWriter_flush_def)

lemma MPCWriter_write_discovery_inv:
  assumes "discovery_inv w" and "constructor_state (discovery obs)"
  shows "discovery_inv (fst (MPCWriter_write w obs))"
proof -
  let ?w = "w\<lparr>buffer := dict_set (mjd (date obs)) obs (buffer w)\<rparr>"
  from assms have "discovery_inv ?w" by (simp add: discovery_inv_def list_all_dict_set)
  then show ?thesis
    using MPCWriter_flush_discovery_inv [of ?w] by (simp add: MPCWriter_write_def Let_def)
qed

lemma run_discovery_inv:
  assumes "discovery_inv w"
    and "\<forall>obs. Write obs \<in> set calls \<longrightarrow> constructor_state (discovery obs)"
  shows "discovery_inv (run w calls)"
  using assms unfolding run_def
proof (induction calls arbitrary: w)
  case Nil
  then show ?case by simp
next
  case (Cons c calls)
  have "discovery_inv (do_call w c)"
  proof (cases c)
    case (Write obs)
    with Cons.prems show ?thesis by (simp add: MPCWriter_write_discovery_inv)
  next
    case Flush
    with Cons.prems show ?thesis by (simp add: MPCWriter_flush_discovery_inv)
  qed
  with Cons show ?case by simp
qed

lemma discovery_inv_init: "discovery_inv (MPCWriter_init X aflush comments True fmt)"
  by (simp add: discovery_inv_def MPCWriter_init_def)

lemma star_first_nth:
  "star_first es \<Longrightarrow> i < length es \<Longrightarrow> is_initial_discovery (discovery (es ! i)) \<Longrightarrow>
     (\<forall>j<i. blank_null (es ! j))
     \<and> (\<forall>j. i < j \<and> j < length es \<longrightarrow> \<not> is_initial_discovery (discovery (es ! j)))"
proof (induction es arbitrary: i)
  case Nil
  then show ?case by simp
next
  case (Cons e es)
  show ?case
  proof (cases i)
    case 0
    with Cons.prems have "\<not> blank_null e" by (simp add: blank_null_def)
    with Cons.prems 0 show ?thesis by (auto simp: list_all_length nth_Cons split: nat.splits)
  next
    case (Suc n)
    show ?thesis
    proof (cases "blank_null e")
      case True
      with Cons.prems Suc have "star_first es" "n < length es"
        "is_initial_discovery (discovery (es ! n))" by simp_all
      from Cons.IH [OF this] True Suc show ?thesis
        by (auto simp: nth_Cons split: nat.splits)
    next
      case False
      with Cons.prems Suc show ?thesis by (auto simp: list_all_length)
    qed
  qed
qed

text \<open>
  C1 (as amended). A writer with \<^verbatim>\<open>auto_discovery\<close>, any sequence of calls of
  \<^verbatim>\<open>write\<close> and \<^verbatim>\<open>flush\<close>, records whose discovery flags are in a state the
  constructor can produce. If an emitted record renders \<open>*\<close>, then every record
  emitted before it is a null observation with a blank discovery column, and every
  record emitted after it does not render \<open>*\<close> and renders \<open>&\<close> if it is marked as
  a discovery. So at most one emitted record renders \<open>*\<close>.
\<close>

theorem discovery_marker_once:
  assumes w: "w = run (MPCWriter_init X aflush comments True fmt) calls"
    and cs: "\<forall>obs. Write obs \<in> set calls \<longrightarrow>
               (is_initial_discovery (discovery obs) \<longrightarrow> is_discovery (discovery obs))"
    and i: "i < length (emitted w)"
    and star: "Discovery_str (discovery (emitted w ! i)) = ''*''"
  shows "(\<forall>j<i. is_null (null_observation (emitted w ! j))
              \<and> Discovery_str (discovery (emitted w ! j)) = '' '')
       \<and> (\<forall>j. i < j \<and> j < length (emitted w) \<longrightarrow>
              Discovery_str (discovery (emitted w ! j)) \<noteq> ''*''
            \<and> (is_discovery (discovery (emitted w ! j)) \<longrightarrow>
                 Discovery_str (discovery (emitted w ! j)) = ''&''))"
proof -
  from cs have "discovery_inv w"
    unfolding w by (intro run_discovery_inv discovery_inv_init) (simp add: constructor_state_def)
  then have sf: "star_first (emitted w)" by (simp add: discovery_inv_def)
  from star have "is_initial_discovery (discovery (emitted w ! i))"
    by (simp add: Discovery_str_def split: if_splits)
  from star_first_nth [OF sf i this] show ?thesis
    by (auto simp: blank_null_def Discovery_str_def)
qed

theorem discovery_marker_once_witness:
  "emitted (run default_writer three_day_calls)
     = [null_blank_record, second_day_record,
        third_day_record\<lparr>discovery := \<lparr>is_discovery = True, is_initial_discovery = False\<rparr>\<rparr>]
   \<and> Discovery_str (discovery (emitted (run default_writer three_day_calls) ! 1)) = ''*''
   \<and> is_null (null_observation (emitted (run default_writer three_day_calls) ! 0))
   \<and> Discovery_str (discovery (emitted (run default_writer three_day_calls) ! 0)) = '' ''
   \<and> Discovery_str (discovery (emitted (run default_writer three_day_calls) ! 2)) = ''&''"
proof -
  let ?w = "run default_writer three_day_calls"
  have e: "emitted ?w
     = [null_blank_record, second_day_record,
        third_day_record\<lparr>discovery := \<lparr>is_discovery = True, is_initial_discovery = False\<rparr>\<rparr>]"
    by code_simp
  have w: "?w = run (MPCWriter_init example_prims True True True None) three_day_calls"
    by (simp add: default_writer_def)
  have cs: "\<forall>obs. Write obs \<in> set three_day_calls \<longrightarrow>
               (is_initial_discovery (discovery obs) \<longrightarrow> is_discovery (discovery obs))"
    by (simp add: three_day_calls_def null_blank_record_def null_star_record_def
        second_day_record_def third_day_record_def example_record_def)
  have i: "1 < length (emitted ?w)" by (simp add: e)
  have star: "Discovery_str (discovery (emitted ?w ! 1)) = ''*''"
    by (simp add: e second_day_record_def example_record_def Discovery_str_def)
  note th = discovery_marker_once [OF w cs i star]
  from th have "is_null (null_observation (emitted ?w ! 0))
     \<and> Discovery_str (discovery (emitted ?w ! 0)) = '' ''" by simp
  moreover have j2: "(1::nat) < 2 \<and> 2 < length (emitted ?w)" by (simp add: e)
  from th j2 have "is_discovery (discovery (emitted ?w ! 2)) \<longrightarrow>
     Discovery_str (discovery (emitted ?w ! 2)) = ''&''" by blast
  moreover have "is_discovery (discovery (emitted ?w ! 2))" by (simp add: e)
  ultimately have "is_null (null_observation (emitted ?w ! 0))
     \<and> Discovery_str (discovery (emitted ?w ! 0)) = '' ''
     \<and> Discovery_str (discovery (emitted ?w ! 2)) = ''&''" by blast
  with e star show ?thesis by blast
qed

text \<open>
  C1. The claim as stated fails for a null observation that carries the marker of an
  initial discovery: the automatic assignment skips null observations, but the
  marker of the record itself is rendered, so the one line with \<open>*\<close> is a null
  observation, not the earliest record that is not one.
\<close>

theorem null_discovery_counterexample:
  "emitted (run default_writer [Write null_star_record]) = [null_star_record]
   \<and> filehandle (run default_writer [Write null_star_record])
       = [''!    K13T01 *AC2013 10 05.41268312 34 45.671-20 28 15.90         20.6 R      568''
          @ [CHR 0x0A]]
   \<and> is_null (null_observation null_star_record)
   \<and> Discovery_str (discovery null_star_record) = ''*''"
  by code_simp

subsection \<open>Each day is written once\<close>

lemma extends_refl: "extends w w"
  by (simp add: extends_def)

lemma extends_trans: "extends w w' \<Longrightarrow> extends w' w'' \<Longrightarrow> extends w w''"
  unfolding extends_def by (elim conjE exE) (rule conjI, simp, rule conjI, blast, auto)

lemma flush_observation_shape:
  assumes "flush_observation w obs = (obs', w', err)"
  shows "date obs' = date obs
   \<and> ((day_of obs \<in> set (written_mpc_observations w) \<and> err = None
        \<and> w' = w\<lparr>discovery_written := discovery_written w'\<rparr>)
      \<or> (day_of obs \<notin> set (written_mpc_observations w)
         \<and> (\<exists>e. err = Some e \<and> formatter w obs' = Inl e)
         \<and> w' = w\<lparr>discovery_written := discovery_written w',
                  written_mpc_observations := written_mpc_observations w @ [day_of obs]\<rparr>)
      \<or> (day_of obs \<notin> set (written_mpc_observations w) \<and> err = None
         \<and> (\<exists>line. formatter w obs' = Inr line
               \<and> w' = w\<lparr>discovery_written := discovery_written w',
                        written_mpc_observations := written_mpc_observations w @ [day_of obs],
                        filehandle := filehandle w @ [line @ [CHR 0x0A]],
                        emitted := emitted w @ [obs']\<rparr>)))"
  using assms
  by (auto simp: flush_observation_def Let_def day_of_def Discovery_init_True
      set_is_initial_discovery_False
      split: if_splits sum.splits prod.splits)

lemma flush_observation_day:
  assumes "flush_observation w obs = (obs', w', err)"
  shows "extends w w' \<and> (day_inv w \<longrightarrow> day_inv w') \<and> buffer w' = buffer w"
proof -
  note sh = flush_observation_shape [OF assms]
  have d: "day_of obs' = day_of obs" using sh by (simp add: day_of_def)
  from sh have "(day_of obs \<in> set (written_mpc_observations w) \<and> err = None
        \<and> w' = w\<lparr>discovery_written := discovery_written w'\<rparr>)
      \<or> (day_of obs \<notin> set (written_mpc_observations w)
         \<and> (\<exists>e. err = Some e \<and> formatter w obs' = Inl e)
         \<and> w' = w\<lparr>discovery_written := discovery_written w',
                  written_mpc_observations := written_mpc_observations w @ [day_of obs]\<rparr>)
      \<or> (day_of obs \<notin> set (written_mpc_observations w) \<and> err = None
         \<and> (\<exists>line. formatter w obs' = Inr line
               \<and> w' = w\<lparr>discovery_written := discovery_written w',
                        written_mpc_observations := written_mpc_observations w @ [day_of obs],
                        filehandle := filehandle w @ [line @ [CHR 0x0A]],
                        emitted := emitted w @ [obs']\<rparr>))" by simp
  then show ?thesis
  proof (elim disjE conjE exE)
    assume w': "w' = w\<lparr>discovery_written := discovery_written w'\<rparr>"
    have "extends w w'" by (subst w') (simp add: extends_def)
    moreover have "day_inv w \<longrightarrow> day_inv w'" by (subst w') (simp add: day_inv_def line_of_def)
    moreover have "buffer w' = buffer w" by (subst w') simp
    ultimately show ?thesis by simp
  next
    assume w': "w' = w\<lparr>discovery_written := discovery_written w',
                  written_mpc_observations := written_mpc_observations w @ [day_of obs]\<rparr>"
    have "extends w w'" by (subst w') (auto simp add: extends_def)
    moreover have "day_inv w \<longrightarrow> day_inv w'"
      by (subst w') (auto simp add: day_inv_def line_of_def)
    moreover have "buffer w' = buffer w" by (subst w') simp
    ultimately show ?thesis by simp
  next
    fix line
    assume nw: "day_of obs \<notin> set (written_mpc_observations w)"
      and fl: "formatter w obs' = Inr line"
      and w': "w' = w\<lparr>discovery_written := discovery_written w',
                        written_mpc_observations := written_mpc_observations w @ [day_of obs],
                        filehandle := filehandle w @ [line @ [CHR 0x0A]],
                        emitted := emitted w @ [obs']\<rparr>"
    have "extends w w'" using nw d by (subst w') (auto simp add: extends_def)
    moreover have "day_inv w \<longrightarrow> day_inv w'"
      using nw d fl by (subst w') (auto simp add: day_inv_def line_of_def)
    moreover have "buffer w' = buffer w" by (subst w') simp
    ultimately show ?thesis by simp
  qed
qed


lemma flush_keys_day:
  "flush_keys w ks = (w', err) \<Longrightarrow> extends w w' \<and> (day_inv w \<longrightarrow> day_inv w')"
proof (induction ks arbitrary: w)
  case Nil
  then show ?case by (simp add: extends_refl)
next
  case (Cons k ks)
  show ?case
  proof (cases "map_of (buffer w) k")
    case None
    with Cons show ?thesis by simp
  next
    case (Some obs)
    obtain obs1 w1 e1 where f: "flush_observation w obs = (obs1, w1, e1)"
      by (cases "flush_observation w obs") auto
    note s1 = flush_observation_day [OF f]
    let ?w2 = "w1\<lparr>buffer := dict_set k obs1 (buffer w1)\<rparr>"
    have e2: "extends w ?w2" using s1 by (simp add: extends_def)
    have i2: "day_inv w \<longrightarrow> day_inv ?w2" using s1 by (simp add: day_inv_def line_of_def)
    show ?thesis
    proof (cases e1)
      case None
      with Cons.prems Some f have "flush_keys ?w2 ks = (w', err)" by simp
      from Cons.IH [OF this] e2 i2 show ?thesis by (blast intro: extends_trans)
    next
      case (Some e)
      with Cons.prems \<open>map_of (buffer w) k = Some obs\<close> f have "w' = ?w2" by simp
      with e2 i2 show ?thesis by simp
    qed
  qed
qed

lemma do_call_day: "extends w (do_call w c) \<and> (day_inv w \<longrightarrow> day_inv (do_call w c))"
proof (cases c)
  case (Write obs)
  let ?w = "w\<lparr>buffer := dict_set (mjd (date obs)) obs (buffer w)\<rparr>"
  have a: "extends w ?w" by (simp add: extends_def)
  have b: "day_inv w \<longrightarrow> day_inv ?w" by (simp add: day_inv_def line_of_def)
  show ?thesis
  proof (cases "auto_flush w")
    case True
    obtain w' err where f: "flush_keys ?w (sort (map fst (buffer ?w))) = (w', err)"
      by (cases "flush_keys ?w (sort (map fst (buffer ?w)))") auto
    from flush_keys_day [OF f] a b have "extends w w' \<and> (day_inv w \<longrightarrow> day_inv w')"
      by (blast intro: extends_trans)
    with Write True f show ?thesis
      by (simp add: MPCWriter_write_def MPCWriter_flush_def Let_def)
  next
    case False
    with Write a b show ?thesis by (simp add: MPCWriter_write_def Let_def)
  qed
next
  case Flush
  obtain w' err where f: "flush_keys w (sort (map fst (buffer w))) = (w', err)"
    by (cases "flush_keys w (sort (map fst (buffer w)))") auto
  from flush_keys_day [OF f] Flush f show ?thesis by (simp add: MPCWriter_flush_def)
qed

lemma run_day: "extends w (run w calls) \<and> (day_inv w \<longrightarrow> day_inv (run w calls))"
  unfolding run_def
proof (induction calls arbitrary: w)
  case Nil
  show ?case by (simp add: extends_refl)
next
  case (Cons c calls)
  from do_call_day [of w c] Cons.IH [of "do_call w c"] show ?case
    by (auto intro: extends_trans)
qed

lemma day_inv_init: "day_inv (MPCWriter_init X aflush comments adiscovery fmt)"
  by (simp add: day_inv_def MPCWriter_init_def)

lemma fresh_two_writes_one_flush:
  assumes k: "mjd (date a) = mjd (date b)"
    and fresh: "buffer w0 = []" "written_mpc_observations w0 = []" "\<not> discovery_written w0"
      "filehandle w0 = []" "emitted w0 = []"
    and af: "\<not> auto_flush w0"
    and fl: "formatter w0 (first_flushed (auto_discovery w0) b) = Inr line"
  shows "emitted (run w0 [Write a, Write b, Flush]) = [first_flushed (auto_discovery w0) b]
       \<and> filehandle (run w0 [Write a, Write b, Flush]) = [line @ [CHR 0x0A]]"
proof -
  let ?w = "w0\<lparr>buffer := [(mjd (date b), b)]\<rparr>"
  let ?b = "first_flushed (auto_discovery w0) b"
  have 1: "run w0 [Write a, Write b, Flush] = fst (MPCWriter_flush ?w)"
    using fresh af by (simp add: run_def MPCWriter_write_def Let_def k)
  have 2: "flush_observation ?w b =
      (?b,
       ?w\<lparr>discovery_written := is_discovery (discovery ?b),
           written_mpc_observations := [jd (date b)],
           filehandle := [line @ [CHR 0x0A]],
           emitted := [?b]\<rparr>, None)"
  proof (cases "auto_discovery w0 \<and> \<not> is_null (null_observation b)")
    case True
    then have b: "?b = b\<lparr>discovery := \<lparr>is_discovery = True, is_initial_discovery = True\<rparr>\<rparr>"
      by (simp add: first_flushed_def)
    show ?thesis
      using True fresh fl unfolding b
      by (simp add: flush_observation_def Let_def Discovery_init_True)
  next
    case False
    then have b: "?b = b" by (auto simp add: first_flushed_def)
    show ?thesis
      using False fresh fl unfolding b
      by (auto simp add: flush_observation_def Let_def)
  qed
  show ?thesis
    by (simp add: 1 MPCWriter_flush_def 2)
qed

lemma flush_single_written:
  assumes b: "buffer w = [(k, obs)]"
    and d: "jd (date obs) \<in> set (written_mpc_observations w)"
  shows "\<exists>obs' dw. fst (MPCWriter_flush w) = w\<lparr>discovery_written := dw, buffer := [(k, obs')]\<rparr>
           \<and> date obs' = date obs"
proof -
  obtain obs' w' err where f: "flush_observation w obs = (obs', w', err)"
    by (cases "flush_observation w obs") auto
  from flush_observation_shape [OF f] d
  have dt: "date obs' = date obs" and e: "err = None"
    and w': "w' = w\<lparr>discovery_written := discovery_written w'\<rparr>"
    by (auto simp: day_of_def)
  have bw: "buffer w' = [(k, obs)]" by (subst w') (simp add: b)
  have "fst (MPCWriter_flush w) = w'\<lparr>buffer := [(k, obs')]\<rparr>"
    by (simp add: MPCWriter_flush_def b f e bw)
  also have "\<dots> = w\<lparr>discovery_written := discovery_written w', buffer := [(k, obs')]\<rparr>"
    by (subst w') simp
  finally show ?thesis using dt by blast
qed

lemma fresh_auto_flush_first_wins:
  assumes k: "mjd (date a) = mjd (date b)" and j: "jd (date a) = jd (date b)"
    and fresh: "buffer w0 = []" "written_mpc_observations w0 = []" "\<not> discovery_written w0"
      "filehandle w0 = []" "emitted w0 = []"
    and af: "auto_flush w0"
    and fl: "formatter w0 (first_flushed (auto_discovery w0) a) = Inr line"
  shows "emitted (run w0 [Write a, Write b, Flush]) = [first_flushed (auto_discovery w0) a]
       \<and> filehandle (run w0 [Write a, Write b, Flush]) = [line @ [CHR 0x0A]]"
proof -
  let ?k = "mjd (date a)"
  let ?w = "w0\<lparr>buffer := [(?k, a)]\<rparr>"
  let ?a = "first_flushed (auto_discovery w0) a"
  let ?w1 = "?w\<lparr>discovery_written := is_discovery (discovery ?a),
           written_mpc_observations := [jd (date a)],
           filehandle := [line @ [CHR 0x0A]],
           emitted := [?a], buffer := [(?k, ?a)]\<rparr>"
  have da: "date ?a = date a" by (simp add: first_flushed_def)
  have 2: "flush_observation ?w a =
      (?a,
       ?w\<lparr>discovery_written := is_discovery (discovery ?a),
           written_mpc_observations := [jd (date a)],
           filehandle := [line @ [CHR 0x0A]],
           emitted := [?a]\<rparr>, None)"
  proof (cases "auto_discovery w0 \<and> \<not> is_null (null_observation a)")
    case True
    then have b: "?a = a\<lparr>discovery := \<lparr>is_discovery = True, is_initial_discovery = True\<rparr>\<rparr>"
      by (simp add: first_flushed_def)
    show ?thesis
      using True fresh fl unfolding b
      by (simp add: flush_observation_def Let_def Discovery_init_True)
  next
    case False
    then have b: "?a = a" by (auto simp add: first_flushed_def)
    show ?thesis
      using False fresh fl unfolding b
      by (auto simp add: flush_observation_def Let_def)
  qed
  have s1: "do_call w0 (Write a) = ?w1"
    using fresh af by (simp add: MPCWriter_write_def MPCWriter_flush_def Let_def 2)
  let ?w1b = "?w1\<lparr>buffer := [(?k, b)]\<rparr>"
  have "\<exists>obs' dw. fst (MPCWriter_flush ?w1b) = ?w1b\<lparr>discovery_written := dw, buffer := [(?k, obs')]\<rparr>
           \<and> date obs' = date b"
    by (rule flush_single_written) (simp_all add: j)
  then obtain b' dw where s2': "fst (MPCWriter_flush ?w1b) = ?w1b\<lparr>discovery_written := dw, buffer := [(?k, b')]\<rparr>"
    and db: "date b' = date b" by blast
  let ?w2 = "?w1b\<lparr>discovery_written := dw, buffer := [(?k, b')]\<rparr>"
  have s2: "do_call ?w1 (Write b) = ?w2"
    using af s2' by (simp add: MPCWriter_write_def Let_def k [symmetric])
  have "\<exists>obs' dw'. fst (MPCWriter_flush ?w2) = ?w2\<lparr>discovery_written := dw', buffer := [(?k, obs')]\<rparr>
           \<and> date obs' = date b'"
    by (rule flush_single_written) (simp_all add: j db)
  then obtain b'' dw' where s3: "do_call ?w2 Flush = ?w2\<lparr>discovery_written := dw', buffer := [(?k, b'')]\<rparr>"
    by auto
  have "run w0 [Write a, Write b, Flush] = ?w2\<lparr>discovery_written := dw', buffer := [(?k, b'')]\<rparr>"
    by (simp only: run_def foldl_Cons foldl_Nil s1 s2 s3)
  then show ?thesis by simp
qed

text \<open>
  C3 (as amended). For every writer and every sequence of calls: no two emitted
  records have the same Julian day; the file holds exactly the lines of the emitted
  records; and whatever is called later, the records emitted then are of days that
  had not been emitted, so writing and flushing an emitted day again writes
  nothing for it. For a writer that does not flush on every write, two writes with
  the same time key followed by a flush, as its first calls, emit one line: that of
  the second record, as the flush leaves it, if it renders. For a writer that flushes
  on every write, the same calls with two records of the same date emit the line of
  the first record.
\<close>

theorem each_day_written_once:
  assumes w0: "w0 = MPCWriter_init X aflush comments adiscovery fmt"
    and w: "w = run w0 calls"
  shows "distinct (map (\<lambda>obs. jd (date obs)) (emitted w))
       \<and> map Inr (filehandle w)
           = map (\<lambda>obs. map_sum id (\<lambda>l. l @ [CHR 0x0A]) (formatter w0 obs)) (emitted w)
       \<and> (\<exists>new. emitted (run w later) = emitted w @ new
              \<and> (\<forall>obs \<in> set new. jd (date obs) \<notin> set (map (\<lambda>obs. jd (date obs)) (emitted w))))
       \<and> (\<not> aflush \<and> calls = [Write a, Write b, Flush] \<and> mjd (date a) = mjd (date b)
            \<and> formatter w0 (first_flushed adiscovery b) = Inr line
          \<longrightarrow> emitted w = [first_flushed adiscovery b] \<and> filehandle w = [line @ [CHR 0x0A]])
       \<and> (aflush \<and> calls = [Write a, Write b, Flush] \<and> mjd (date a) = mjd (date b)
            \<and> jd (date a) = jd (date b)
            \<and> formatter w0 (first_flushed adiscovery a) = Inr line
          \<longrightarrow> emitted w = [first_flushed adiscovery a] \<and> filehandle w = [line @ [CHR 0x0A]])"
proof (intro conjI impI)
  have i0: "day_inv w0" unfolding w0 by (rule day_inv_init)
  from run_day [of w0 calls] i0 have e: "extends w0 w" and i: "day_inv w" by (simp_all add: w)
  from i show "distinct (map (\<lambda>obs. jd (date obs)) (emitted w))"
    by (simp add: day_inv_def day_of_def [abs_def])
  from e have f: "formatter w = formatter w0" by (simp add: extends_def)
  from i show "map Inr (filehandle w)
           = map (\<lambda>obs. map_sum id (\<lambda>l. l @ [CHR 0x0A]) (formatter w0 obs)) (emitted w)"
    by (simp add: day_inv_def line_of_def [abs_def] f)
  from run_day [of w later] obtain new where
    n: "emitted (run w later) = emitted w @ new"
    and d: "\<forall>obs \<in> set new. day_of obs \<notin> set (written_mpc_observations w)"
    unfolding extends_def by blast
  from i have "set (map day_of (emitted w)) \<subseteq> set (written_mpc_observations w)"
    by (simp add: day_inv_def)
  with d have "\<forall>obs \<in> set new. jd (date obs) \<notin> set (map (\<lambda>obs. jd (date obs)) (emitted w))"
    by (auto simp: day_of_def)
  with n show "\<exists>new. emitted (run w later) = emitted w @ new
              \<and> (\<forall>obs \<in> set new. jd (date obs) \<notin> set (map (\<lambda>obs. jd (date obs)) (emitted w)))"
    by blast
next
  assume a: "\<not> aflush \<and> calls = [Write a, Write b, Flush] \<and> mjd (date a) = mjd (date b)
            \<and> formatter w0 (first_flushed adiscovery b) = Inr line"
  have ad: "auto_discovery w0 = adiscovery" by (simp add: w0 MPCWriter_init_def)
  have "emitted (run w0 [Write a, Write b, Flush]) = [first_flushed (auto_discovery w0) b]
       \<and> filehandle (run w0 [Write a, Write b, Flush]) = [line @ [CHR 0x0A]]"
    using a by (intro fresh_two_writes_one_flush) (simp_all add: ad, simp_all add: w0 MPCWriter_init_def)
  with a show "emitted w = [first_flushed adiscovery b]" and "filehandle w = [line @ [CHR 0x0A]]"
    by (simp_all add: w ad)
next
  assume a: "aflush \<and> calls = [Write a, Write b, Flush] \<and> mjd (date a) = mjd (date b)
            \<and> jd (date a) = jd (date b)
            \<and> formatter w0 (first_flushed adiscovery a) = Inr line"
  have ad: "auto_discovery w0 = adiscovery" by (simp add: w0 MPCWriter_init_def)
  have "emitted (run w0 [Write a, Write b, Flush]) = [first_flushed (auto_discovery w0) a]
       \<and> filehandle (run w0 [Write a, Write b, Flush]) = [line @ [CHR 0x0A]]"
    using a by (intro fresh_auto_flush_first_wins) (simp_all add: ad, simp_all add: w0 MPCWriter_init_def)
  with a show "emitted w = [first_flushed adiscovery a]" and "filehandle w = [line @ [CHR 0x0A]]"
    by (simp_all add: w ad)
qed

theorem each_day_written_once_witness:
  "emitted (run buffering_writer same_day_calls) = [other_name_record]
   \<and> filehandle (run buffering_writer same_day_calls)
       = [''     K13T02 *AC2013 10 05.41268312 34 45.671-20 28 15.90         20.6 R      568''
          @ [CHR 0x0A]]
   \<and> distinct (map (\<lambda>obs. jd (date obs)) (emitted (run buffering_writer same_day_calls)))
   \<and> emitted (run (run buffering_writer same_day_calls) same_day_calls) = [other_name_record]"
proof -
  let ?line = "''     K13T02 *AC2013 10 05.41268312 34 45.671-20 28 15.90         20.6 R      568''"
  have w0: "buffering_writer = MPCWriter_init example_prims False True True None"
    by (simp add: buffering_writer_def)
  have ff: "first_flushed True other_name_record = other_name_record"
    by (simp add: first_flushed_def other_name_record_def example_record_def)
  have fl: "formatter buffering_writer (first_flushed True other_name_record) = Inr ?line"
    unfolding ff by code_simp
  have k: "mjd (date example_record) = mjd (date other_name_record)"
    by (simp add: other_name_record_def)
  note th = each_day_written_once [OF w0 refl, of same_day_calls same_day_calls example_record
      other_name_record ?line]
  from th k fl have "emitted (run buffering_writer same_day_calls) = [other_name_record]
     \<and> filehandle (run buffering_writer same_day_calls) = [?line @ [CHR 0x0A]]"
    by (simp add: same_day_calls_def ff)
  moreover from th have "distinct (map (\<lambda>obs. jd (date obs))
      (emitted (run buffering_writer same_day_calls)))" by simp
  moreover have "emitted (run (run buffering_writer same_day_calls) same_day_calls)
      = [other_name_record]" by code_simp
  ultimately show ?thesis by simp
qed

text \<open>
  C3. The claim as stated fails for a writer with the default \<^verbatim>\<open>auto_flush=True\<close>:
  the first record is written to the file by its own \<^verbatim>\<open>write\<close>, and the second
  record of the same day is then never written.
\<close>

theorem first_write_wins_counterexample:
  "mjd (date example_record) = mjd (date other_name_record)
   \<and> filehandle (run default_writer same_day_calls)
       = [''     K13T01 *AC2013 10 05.41268312 34 45.671-20 28 15.90         20.6 R      568''
          @ [CHR 0x0A]]
   \<and> emitted (run default_writer same_day_calls) = [example_record]
   \<and> provisional_name other_name_record = ''K13T02''"
  by code_simp

subsection \<open>Rendering a record and parsing the rendering\<close>

lemma stripped_strip_by: "stripped P (strip_by P u)"
proof -
  let ?v = "dropWhile P u"
  let ?t = "rev (dropWhile P (rev ?v))"
  have v: "?v = ?t @ rev (takeWhile P (rev ?v))"
    by (metis rev_append rev_rev_ident takeWhile_dropWhile_id)
  show ?thesis
  proof (cases "?t = []")
    case True
    then show ?thesis by (simp add: stripped_def strip_by_def lstrip_by_def rstrip_by_def)
  next
    case False
    then have d: "dropWhile P (rev ?v) \<noteq> []" by simp
    have "last ?t = hd (dropWhile P (rev ?v))" using d by (simp add: last_rev)
    then have l: "\<not> P (last ?t)" using hd_dropWhile [OF d] by simp
    from False v have "hd ?v = hd ?t" by (metis hd_append2)
    moreover from False v have "?v \<noteq> []" by (metis append_is_Nil_conv)
    ultimately have "\<not> P (hd ?t)" using hd_dropWhile [of P u] by simp
    with l False show ?thesis
      by (simp add: stripped_def strip_by_def lstrip_by_def rstrip_by_def)
  qed
qed

lemma strip_by_padded:
  assumes t: "stripped P t" and pre: "\<forall>x\<in>set pre. P x" and suf: "\<forall>x\<in>set suf. P x"
  shows "strip_by P (pre @ t @ suf) = t"
proof (cases "t = []")
  case True
  have "dropWhile P (pre @ suf) = []"
    using pre suf by (auto simp add: dropWhile_eq_Nil_conv)
  then have "strip_by P (pre @ suf) = []"
    unfolding strip_by_def lstrip_by_def rstrip_by_def by (simp only: rev.simps dropWhile.simps)
  with True show ?thesis by simp
next
  case False
  with t have h: "\<not> P (hd t)" and l: "\<not> P (last t)" by (simp_all add: stripped_def)
  have 1: "dropWhile P (pre @ t @ suf) = t @ suf"
  proof -
    have "dropWhile P (pre @ (t @ suf)) = dropWhile P (t @ suf)"
      using pre by (intro dropWhile_append2) simp
    also have "\<dots> = t @ suf" using False h by (cases t) auto
    finally show ?thesis .
  qed
  have 2: "dropWhile P (rev (t @ suf)) = rev t"
  proof -
    have "dropWhile P (rev (t @ suf)) = dropWhile P (rev suf @ rev t)" by simp
    also have "\<dots> = dropWhile P (rev t)" using suf by (intro dropWhile_append2) simp
    also have "\<dots> = rev t" using False l by (cases "rev t") (auto simp: last_rev hd_rev)
    finally show ?thesis .
  qed
  show ?thesis by (simp add: strip_by_def lstrip_by_def rstrip_by_def 1 2 del: rev_append)
qed

lemma strip_by_stripped: "stripped P t \<Longrightarrow> strip_by P t = t"
  using strip_by_padded [of P t "[]" "[]"] by simp

lemma length_strip_by: "length (strip_by P u) \<le> length u"
proof -
  have "length (dropWhile P (rev (dropWhile P u))) \<le> length (rev (dropWhile P u))"
    by (rule length_dropWhile_le)
  also have "\<dots> \<le> length u" by (simp add: length_dropWhile_le)
  finally show ?thesis by (simp add: strip_by_def lstrip_by_def rstrip_by_def)
qed

lemma Observation_init_build:
  assumes "NullObservation_init n None = Inr nu" and "Discovery_init d = Inr di"
    and "MPCNote_init n1 ''Note1'' = Inr nt1" and "MPCNote_init n2 ''Note2'' = Inr nt2"
    and "Time_mpc X ds (compute_precision ds) = Some tm"
    and "coordinate_of_pair X ra dec = Inr (c, rp, dp)"
    and "mag_of X m = Inr (mv, mp)" and "length oc \<le> 3"
  shows "\<exists>cc. Observation_init X n name d n1 n2 ds ra dec m b oc =
     Inr \<lparr>null_observation = nu,
          provisional_name = (case name of None \<Rightarrow> replicate 7 (CHR '' '') | Some t \<Rightarrow> strip t),
          discovery = di, note1 = nt1, note2 = nt2, date = tm,
          date_precision = compute_precision ds, coordinate = c, ra_precision = 3,
          dec_precision = 2, mag = mv, mag_precision = mp,
          mag_err = (if mv = None then PyNone else PyInt (- 1)), band = band_of b,
          observatory_code = oc, comment = CObj cc\<rparr>"
proof -
  obtain cc where cc: "OSSOSComment_init X OSSOS ''O'' None name [] (code nt1) PyNone PyNone
      PyNone (PyInt 0) (case m of None \<Rightarrow> PyNone | Some t \<Rightarrow> PyStr t) (PyInt (- 1)) None = Inr cc"
    using OSSOSComment_init_defaults by blast
  show ?thesis
    using assms(8) by (simp add: Observation_init_def assms(1-7) cc)
qed

lemma Observation_init_parts:
  assumes "Observation_init X n name d n1 n2 ds ra dec m b oc = Inr r"
  shows "NullObservation_init n None = Inr (null_observation r)"
    and "provisional_name r = (case name of None \<Rightarrow> replicate 7 (CHR '' '') | Some t \<Rightarrow> strip t)"
    and "Discovery_init d = Inr (discovery r)"
    and "MPCNote_init n1 ''Note1'' = Inr (note1 r)"
    and "MPCNote_init n2 ''Note2'' = Inr (note2 r)"
    and "mag_err r = (if mag r = None then PyNone else PyInt (- 1))"
    and "band r = band_of b"
    and "observatory_code r = oc"
    and "ra_precision r = 3" and "dec_precision r = 2"
    and "mag r = None \<longrightarrow> mag_precision r = 0"
  using assms
  by (auto simp: Observation_init_def Let_def mag_of_def
      split: sum.splits option.splits if_splits prod.splits)

lemma attach_comment_rest:
  assumes "attach_comment obs cm = Inr r"
  shows "ra_precision r = ra_precision obs" and "dec_precision r = dec_precision obs"
    and "mag_err r = mag_err obs"
    and "constructor_state (discovery obs) \<Longrightarrow> constructor_state (discovery r)"
  using assms
  by (auto simp: attach_comment_def Let_def set_is_discovery_def constructor_state_def py_in_def
      split: comment_val.splits option.splits list.splits if_splits)

lemma Discovery_init_constructor_state:
  "Discovery_init d = Inr di \<Longrightarrow> constructor_state di"
  by (auto simp: Discovery_init_def set_is_discovery_def set_is_initial_discovery_def
      constructor_state_def Let_def py_in_def split: if_splits sum.splits)

lemma Observation_from_string_Record:
  assumes r: "Observation_from_string X line = Inr (Record r)"
  shows "\<exists>l obs cm. 80 \<le> length l
      \<and> Observation_init X (PyStr (take 1 l)) (Some (take 11 (drop 1 l)))
             (PyStr (take 1 (drop 12 l))) (Some (take 1 (drop 13 l))) (Some (take 1 (drop 14 l)))
             (take 17 (drop 15 l)) (take 12 (drop 32 l)) (take 12 (drop 44 l))
             (Some (take 5 (drop 65 l))) (take 1 (drop 70 l)) (take 3 (drop 77 l)) = Inr obs
      \<and> attach_comment obs cm = Inr r"
proof -
  define l where "l = strip_char (CHR 0x0A) line"
  have nc: "\<not> (0 < length l \<and> l ! 0 = CHR ''#'')"
  proof
    assume "0 < length l \<and> l ! 0 = CHR ''#''"
    then have "Observation_from_string X line
                 = map_sum id CommentLine (MPCComment_from_string X (drop 1 l))"
      by (simp add: Observation_from_string_def l_def)
    with r show False by (cases "MPCComment_from_string X (drop 1 l)") simp_all
  qed
  have len: "80 \<le> length l"
  proof (rule ccontr)
    assume "\<not> 80 \<le> length l"
    then have "length l < 80" by simp
    with l_def nc have "Observation_from_string X line = Inr NoRecord"
      by (rule Observation_from_string_short)
    with r show False by simp
  qed
  from r Observation_from_string_long [OF l_def nc len, of X]
  obtain obs cm where
    "Observation_init X (PyStr (take 1 l)) (Some (take 11 (drop 1 l)))
             (PyStr (take 1 (drop 12 l))) (Some (take 1 (drop 13 l))) (Some (take 1 (drop 14 l)))
             (take 17 (drop 15 l)) (take 12 (drop 32 l)) (take 12 (drop 44 l))
             (Some (take 5 (drop 65 l))) (take 1 (drop 70 l)) (take 3 (drop 77 l)) = Inr obs"
    and "attach_comment obs cm = Inr r"
    by (auto simp: map_sum_Record split: sum.splits)
  with len show ?thesis by blast
qed

lemma columns_of_append:
  assumes "length f0 = 12" and "length f1 = 1" and "length f2 = 1" and "length f3 = 1"
    and "length f4 = 17" and "length f5 = 12" and "length f6 = 12" and "length f7 = 9"
    and "length f8 = 6" and "length f9 = 6" and "length f10 = 3"
    and "s = f0 @ f1 @ f2 @ f3 @ f4 @ f5 @ f6 @ f7 @ f8 @ f9 @ f10"
  shows "length s = 80" and "take 1 s = take 1 f0" and "take 11 (drop 1 s) = drop 1 f0"
    and "take 1 (drop 12 s) = f1" and "take 1 (drop 13 s) = f2" and "take 1 (drop 14 s) = f3"
    and "take 17 (drop 15 s) = f4" and "take 12 (drop 32 s) = f5" and "take 12 (drop 44 s) = f6"
    and "take 5 (drop 65 s) = take 5 f8" and "take 1 (drop 70 s) = drop 5 f8"
    and "take 3 (drop 77 s) = f10" and "drop 81 s = []"
  using assms by simp_all

lemma NullObservation_reread:
  assumes "NullObservation_init (PyStr u) None = Inr nu"
  shows "length (NullObservation_str nu) = 1"
    and "NullObservation_init (PyStr (take 1 (NullObservation_str nu @ rest))) None = Inr nu"
    and "hd (NullObservation_str nu @ rest) \<noteq> CHR ''#''"
    and "hd (NullObservation_str nu @ rest) \<noteq> CHR 0x0A"
  using assms
  by (auto simp: NullObservation_init_def NullObservation_str_def NULL_OBSERVATION_CHARACTERS_def
      split: if_splits)

lemma Discovery_reread:
  assumes "constructor_state d"
  shows "Discovery_init (PyStr (Discovery_str d)) = Inr d" and "length (Discovery_str d) = 1"
  using assms
  by (cases d; auto simp: constructor_state_def Discovery_init_def Discovery_str_def
      set_is_discovery_def set_is_initial_discovery_def py_in_def)+

lemma MPCNote_reread:
  assumes n: "MPCNote_init (Some u) t = Inr n" and u: "length u \<le> 1"
  shows "MPCNote_init (Some (ljust 1 (code n))) t = Inr n" and "length (ljust 1 (code n)) = 1"
proof -
  have c: "code n = strip u" using n by (rule MPCNote_init_code)
  have st: "stripped is_space (code n)" unfolding c strip_def by (rule stripped_strip_by)
  have len: "length (code n) \<le> 1"
    unfolding c strip_def using length_strip_by [of is_space u] u by simp
  have "strip ([] @ code n @ replicate (1 - length (code n)) (CHR '' '')) = code n"
    unfolding strip_def by (rule strip_by_padded [OF st]) (simp_all add: is_space_def)
  then have "strip (ljust 1 (code n)) = strip u" by (simp add: ljust_def c)
  then have "MPCNote_init (Some (ljust 1 (code n))) t = MPCNote_init (Some u) t"
    by (simp add: MPCNote_init_def Let_def split: option.splits)
  with n show "MPCNote_init (Some (ljust 1 (code n))) t = Inr n" by simp
  from len show "length (ljust 1 (code n)) = 1" by (simp add: ljust_def)
qed

lemma name_reread:
  assumes nm: "nm = strip u" and u: "length u \<le> 11" and n1: "length nstr = 1"
  shows "length (ljust 12 (nstr @ (if length nm > 7 then [] else replicate 4 (CHR '' '')) @ nm)) = 12"
    and "strip (drop 1 (ljust 12 (nstr @ (if length nm > 7 then [] else replicate 4 (CHR '' '')) @ nm)))
           = nm"
    and "take 1 (ljust 12 (nstr @ (if length nm > 7 then [] else replicate 4 (CHR '' '')) @ nm))
           = take 1 (nstr @ [])"
proof -
  let ?pad = "if length nm > 7 then [] else replicate 4 (CHR '' '')"
  have st: "stripped is_space nm" unfolding nm strip_def by (rule stripped_strip_by)
  have len: "length nm \<le> 11"
    unfolding nm strip_def using length_strip_by [of is_space u] u by simp
  then have l12: "length (nstr @ ?pad @ nm) \<le> 12" using n1 by simp
  then show "length (ljust 12 (nstr @ ?pad @ nm)) = 12" by (simp add: ljust_def)
  have "drop 1 (ljust 12 (nstr @ ?pad @ nm))
          = ?pad @ nm @ replicate (12 - length (nstr @ ?pad @ nm)) (CHR '' '')"
    using n1 by (simp add: ljust_def)
  moreover have "strip (?pad @ nm @ replicate (12 - length (nstr @ ?pad @ nm)) (CHR '' '')) = nm"
    unfolding strip_def by (rule strip_by_padded [OF st]) (simp_all add: is_space_def)
  ultimately show "strip (drop 1 (ljust 12 (nstr @ ?pad @ nm))) = nm" by simp
  show "take 1 (ljust 12 (nstr @ ?pad @ nm)) = take 1 (nstr @ [])"
    using n1 by (simp add: ljust_def)
qed

lemma band_reread:
  assumes "band_of a = Some b"
  shows "band_of (ljust 1 b) = Some b" and "length b = 1"
proof -
  let ?t = "strip_by (\<lambda>c. c = CHR '' '') a"
  from assms have ne: "?t \<noteq> []" and b: "b = take 1 ?t"
    by (auto simp: band_of_def strip_char_def Let_def split: if_splits)
  have "stripped (\<lambda>c. c = CHR '' '') ?t" by (rule stripped_strip_by)
  with ne have h: "hd ?t \<noteq> CHR '' ''" by (simp add: stripped_def)
  from ne b have b1: "b = [hd ?t]" by (cases ?t) simp_all
  then show "length b = 1" by simp
  have "stripped (\<lambda>c. c = CHR '' '') b" using h by (simp add: b1 stripped_def)
  then have "strip_by (\<lambda>c. c = CHR '' '') b = b" by (rule strip_by_stripped)
  then show "band_of (ljust 1 b) = Some b"
    by (simp add: band_of_def strip_char_def ljust_def b1)
qed

lemma blank_mag_reread:
  "mag_of X (Some (replicate 5 (CHR '' ''))) = Inr (None, 0)"
  "band_of (replicate 1 (CHR '' '')) = None"
  by (simp_all add: mag_of_def band_of_def strip_char_def strip_by_def lstrip_by_def rstrip_by_def
      numeral_nat)

lemma length_ljust: "length (ljust n t) = max n (length t)"
  by (simp add: ljust_def)

lemma render_then_parse:
  assumes nu: "NullObservation_init (PyStr u0) None = Inr (null_observation r)"
    and nm: "provisional_name r = strip u1" and u1: "length u1 \<le> 11"
    and di: "constructor_state (discovery r)"
    and n1: "MPCNote_init (Some u3) ''Note1'' = Inr (note1 r)" and u3: "length u3 \<le> 1"
    and n2: "MPCNote_init (Some u4) ''Note2'' = Inr (note2 r)" and u4: "length u4 \<le> 1"
    and bd: "band r = band_of u9"
    and oc: "length (observatory_code r) = 3" and nl: "last (observatory_code r) \<noteq> CHR 0x0A"
    and ren: "Observation_str X r = Inr s"
    and tm1: "length (Time_str X (date r)) \<le> 17"
    and tm2: "Time_mpc X (ljust 17 (Time_str X (date r)))
               (compute_precision (ljust 17 (Time_str X (date r)))) = Some (date r)"
    and tm3: "compute_precision (ljust 17 (Time_str X (date r))) = date_precision r"
    and co1: "length (ra_format X (coordinate r) (ra_precision r)) \<le> 12"
      "length (dec_format X (coordinate r) (dec_precision r)) \<le> 12"
    and co2: "coordinate_of_pair X (ljust 12 (ra_format X (coordinate r) (ra_precision r)))
               (ljust 12 (dec_format X (coordinate r) (dec_precision r)))
             = Inr (coordinate r, rp, dp)"
    and mg2: "\<And>m. mag r = Some m \<Longrightarrow>
               mag_of X (Some (ljust 5 (format_f X (mag_precision r) m))) = Inr (mv, mp)"
  shows "Observation_from_string X s = Inr (Record
     \<lparr>null_observation = null_observation r,
          provisional_name = provisional_name r,
          discovery = discovery r, note1 = note1 r, note2 = note2 r, date = date r,
          date_precision = date_precision r, coordinate = coordinate r, ra_precision = 3,
          dec_precision = 2, mag = (if mag r = None then None else mv),
          mag_precision = (if mag r = None then 0 else mp),
          mag_err = (if (if mag r = None then None else mv) = None then PyNone else PyInt (- 1)),
          band = (if mag r = None then None else band r),
          observatory_code = observatory_code r, comment = CStr []\<rparr>)"
proof -
  define nstr where "nstr = NullObservation_str (null_observation r)"
  define f0 where "f0 = ljust 12 (nstr
      @ (if length (provisional_name r) > 7 then [] else replicate 4 (CHR '' ''))
      @ provisional_name r)"
  define f1 where "f1 = Discovery_str (discovery r)"
  define f2 where "f2 = ljust 1 (code (note1 r))"
  define f3 where "f3 = ljust 1 (code (note2 r))"
  define f4 where "f4 = ljust 17 (Time_str X (date r))"
  define f5 where "f5 = ljust 12 (ra_format X (coordinate r) (ra_precision r))"
  define f6 where "f6 = ljust 12 (dec_format X (coordinate r) (dec_precision r))"
  define f7 where "f7 = replicate 9 (CHR '' '')"
  define f8 where "f8 = (case mag r of
               None \<Rightarrow> replicate 6 (CHR '' '')
             | Some v \<Rightarrow>
                 ljust 5 (format_f X (mag_precision r) v)
                 @ ljust 1 (case band r of None \<Rightarrow> ''None'' | Some b \<Rightarrow> b))"
  define f9 where "f9 = replicate 6 (CHR '' '')"
  define f10 where "f10 = rjust 3 (observatory_code r)"
  from ren have l8: "length f8 = 6" and s: "s = f0 @ f1 @ f2 @ f3 @ f4 @ f5 @ f6 @ f7 @ f8 @ f9 @ f10"
    by (simp_all add: Observation_str_def Let_def f0_def f1_def f2_def f3_def f4_def f5_def f6_def
        f7_def f8_def f9_def f10_def nstr_def split: if_splits)
  have ns1: "length nstr = 1" unfolding nstr_def by (rule NullObservation_reread(1) [OF nu])
  note nr = name_reread [OF nm u1 ns1]
  have l0: "length f0 = 12" unfolding f0_def by (rule nr(1))
  have l1: "length f1 = 1" unfolding f1_def by (rule Discovery_reread(2) [OF di])
  have l2: "length f2 = 1" unfolding f2_def by (rule MPCNote_reread(2) [OF n1 u3])
  have l3: "length f3 = 1" unfolding f3_def by (rule MPCNote_reread(2) [OF n2 u4])
  have l4: "length f4 = 17" using tm1 by (simp add: f4_def length_ljust)
  have l5: "length f5 = 12" using co1 by (simp add: f5_def length_ljust)
  have l6: "length f6 = 12" using co1 by (simp add: f6_def length_ljust)
  have l7: "length f7 = 9" by (simp add: f7_def)
  have l9: "length f9 = 6" by (simp add: f9_def)
  have f10: "f10 = observatory_code r" using oc by (simp add: f10_def rjust_def)
  have l10: "length f10 = 3" using oc by (simp add: f10)
  note col = columns_of_append [OF l0 l1 l2 l3 l4 l5 l6 l7 l8 l9 l10 s]
  have mg: "mag_of X (Some (take 5 f8)) = Inr (if mag r = None then None else mv,
                                              if mag r = None then 0 else mp)
          \<and> band_of (drop 5 f8) = (if mag r = None then None else band r)"
  proof (cases "mag r")
    case None
    then have "f8 = replicate 5 (CHR '' '') @ replicate 1 (CHR '' '')"
      by (simp add: f8_def eval_nat_numeral)
    then have "take 5 f8 = replicate 5 (CHR '' '')" "drop 5 f8 = replicate 1 (CHR '' '')"
      by simp_all
    with None show ?thesis by (simp only: blank_mag_reread) simp
  next
    case (Some m)
    define bs where "bs = (case band r of None \<Rightarrow> ''None'' | Some b \<Rightarrow> b)"
    from Some have f8: "f8 = ljust 5 (format_f X (mag_precision r) m) @ ljust 1 bs"
      by (simp add: f8_def bs_def)
    with l8 have a: "length (ljust 5 (format_f X (mag_precision r) m)) = 5"
      and b: "length (ljust 1 bs) = 1"
      by (simp_all add: length_ljust max_def split: if_splits)
    from b have "length bs \<le> 1" by (simp add: length_ljust max_def split: if_splits)
    then obtain b' where b': "band r = Some b'" "bs = b'"
      by (cases "band r") (simp_all add: bs_def)
    from a f8 have t5: "take 5 f8 = ljust 5 (format_f X (mag_precision r) m)"
      and d5: "drop 5 f8 = ljust 1 b'" by (simp_all add: b')
    from bd b' have "band_of u9 = Some b'" by simp
    then have "band_of (ljust 1 b') = Some b'" by (rule band_reread(1))
    with Some mg2 [OF Some] t5 d5 b' show ?thesis by simp
  qed
  have f0': "f0 = nstr @ drop 1 f0" using l0 ns1 by (simp add: f0_def ljust_def)
  have "take 1 s = take 1 nstr" using col(2) nr(3) by (simp add: f0_def)
  then have c0: "NullObservation_init (PyStr (take 1 s)) None = Inr (null_observation r)"
    using NullObservation_reread(2) [OF nu, of "[]"] by (simp add: nstr_def)
  have c1: "strip (take 11 (drop 1 s)) = provisional_name r"
    using nr(2) col(3) by (simp add: f0_def)
  have c2: "Discovery_init (PyStr (take 1 (drop 12 s))) = Inr (discovery r)"
    using Discovery_reread(1) [OF di] col(4) by (simp add: f1_def)
  have c3: "MPCNote_init (Some (take 1 (drop 13 s))) ''Note1'' = Inr (note1 r)"
    using MPCNote_reread(1) [OF n1 u3] col(5) by (simp add: f2_def)
  have c4: "MPCNote_init (Some (take 1 (drop 14 s))) ''Note2'' = Inr (note2 r)"
    using MPCNote_reread(1) [OF n2 u4] col(6) by (simp add: f3_def)
  have c5: "Time_mpc X (take 17 (drop 15 s)) (compute_precision (take 17 (drop 15 s)))
              = Some (date r)"
    using tm2 col(7) by (simp add: f4_def)
  have c5': "compute_precision (take 17 (drop 15 s)) = date_precision r"
    using tm3 col(7) by (simp add: f4_def)
  have c6: "coordinate_of_pair X (take 12 (drop 32 s)) (take 12 (drop 44 s))
              = Inr (coordinate r, rp, dp)"
    using co2 col(8,9) by (simp add: f5_def f6_def)
  have c8: "mag_of X (Some (take 5 (drop 65 s)))
              = Inr (if mag r = None then None else mv, if mag r = None then 0 else mp)"
    using mg col(10) by simp
  have c10: "length (take 3 (drop 77 s)) \<le> 3" by simp
  from Observation_init_build [OF c0 c2 c3 c4 c5 c6 c8 c10,
      of "Some (take 11 (drop 1 s))" "take 1 (drop 70 s)"]
  obtain cc where init0: "Observation_init X (PyStr (take 1 s)) (Some (take 11 (drop 1 s)))
       (PyStr (take 1 (drop 12 s))) (Some (take 1 (drop 13 s))) (Some (take 1 (drop 14 s)))
       (take 17 (drop 15 s)) (take 12 (drop 32 s)) (take 12 (drop 44 s))
       (Some (take 5 (drop 65 s))) (take 1 (drop 70 s)) (take 3 (drop 77 s)) =
     Inr \<lparr>null_observation = null_observation r,
          provisional_name = (case Some (take 11 (drop 1 s)) of
                                None \<Rightarrow> replicate 7 (CHR '' '') | Some t \<Rightarrow> strip t),
          discovery = discovery r, note1 = note1 r, note2 = note2 r, date = date r,
          date_precision = compute_precision (take 17 (drop 15 s)),
          coordinate = coordinate r, ra_precision = 3,
          dec_precision = 2, mag = (if mag r = None then None else mv),
          mag_precision = (if mag r = None then 0 else mp),
          mag_err = (if (if mag r = None then None else mv) = None then PyNone else PyInt (- 1)),
          band = band_of (take 1 (drop 70 s)),
          observatory_code = take 3 (drop 77 s), comment = CObj cc\<rparr>"
    by blast
  have init: "Observation_init X (PyStr (take 1 s)) (Some (take 11 (drop 1 s)))
       (PyStr (take 1 (drop 12 s))) (Some (take 1 (drop 13 s))) (Some (take 1 (drop 14 s)))
       (take 17 (drop 15 s)) (take 12 (drop 32 s)) (take 12 (drop 44 s))
       (Some (take 5 (drop 65 s))) (take 1 (drop 70 s)) (take 3 (drop 77 s)) =
     Inr \<lparr>null_observation = null_observation r,
          provisional_name = provisional_name r,
          discovery = discovery r, note1 = note1 r, note2 = note2 r, date = date r,
          date_precision = date_precision r, coordinate = coordinate r, ra_precision = 3,
          dec_precision = 2, mag = (if mag r = None then None else mv),
          mag_precision = (if mag r = None then 0 else mp),
          mag_err = (if (if mag r = None then None else mv) = None then PyNone else PyInt (- 1)),
          band = band_of (take 1 (drop 70 s)),
          observatory_code = observatory_code r, comment = CObj cc\<rparr>"
    unfolding init0 using c1 c5' col(12) f10 by simp
  have ne: "s \<noteq> []" using col(1) by auto
  have hd_s: "hd s = hd nstr" using ns1 by (subst s, subst f0') (cases nstr, simp_all)
  have "hd (nstr @ []) \<noteq> CHR ''#''" "hd (nstr @ []) \<noteq> CHR 0x0A"
    unfolding nstr_def by (rule NullObservation_reread(3,4) [OF nu])+
  with hd_s have h1: "hd s \<noteq> CHR ''#''" and h2: "hd s \<noteq> CHR 0x0A" by simp_all
  have "last s = last f10" using l10 by (subst s) (cases f10, simp_all)
  with nl have h3: "last s \<noteq> CHR 0x0A" by (simp add: f10)
  have "stripped (\<lambda>a. a = CHR 0x0A) s" using h2 h3 by (simp add: stripped_def)
  then have st: "s = strip_char (CHR 0x0A) s"
    unfolding strip_char_def by (rule strip_by_stripped [symmetric])
  have nc: "\<not> (0 < length s \<and> s ! 0 = CHR ''#'')" using h1 ne by (simp add: hd_conv_nth)
  have len: "80 \<le> length s" using col(1) by simp
  have "Observation_from_string X s = Inr (Record
     \<lparr>null_observation = null_observation r,
          provisional_name = provisional_name r,
          discovery = discovery r, note1 = note1 r, note2 = note2 r, date = date r,
          date_precision = date_precision r, coordinate = coordinate r, ra_precision = 3,
          dec_precision = 2, mag = (if mag r = None then None else mv),
          mag_precision = (if mag r = None then 0 else mp),
          mag_err = (if (if mag r = None then None else mv) = None then PyNone else PyInt (- 1)),
          band = band_of (take 1 (drop 70 s)),
          observatory_code = observatory_code r, comment = CStr []\<rparr>)"
    unfolding Observation_from_string_long [OF st nc len] init col(13)
      MPCComment_from_string_empty
    by (simp add: attach_comment_def)
  moreover have "band_of (take 1 (drop 70 s)) = (if mag r = None then None else band r)"
    using mg col(11) by simp
  ultimately show ?thesis by simp
qed

lemma built_render_then_parse:
  assumes built: "Observation_from_string X line = Inr (Record r)"
    and nl: "last (observatory_code r) \<noteq> CHR 0x0A"
    and ren: "Observation_str X r = Inr s"
    and tm1: "length (Time_str X (date r)) \<le> 17"
    and tm2: "Time_mpc X (ljust 17 (Time_str X (date r)))
               (compute_precision (ljust 17 (Time_str X (date r)))) = Some (date r)"
    and tm3: "compute_precision (ljust 17 (Time_str X (date r))) = date_precision r"
    and co1: "length (ra_format X (coordinate r) 3) \<le> 12"
      "length (dec_format X (coordinate r) 2) \<le> 12"
    and co2: "coordinate_of_pair X (ljust 12 (ra_format X (coordinate r) 3))
               (ljust 12 (dec_format X (coordinate r) 2))
             = Inr (coordinate r, rp, dp)"
    and mg2: "\<And>m. mag r = Some m \<Longrightarrow>
               mag_of X (Some (ljust 5 (format_f X (mag_precision r) m))) = Inr (mv, mp)"
  shows "Observation_from_string X s = Inr (Record
           (r\<lparr>mag := (if mag r = None then None else mv),
              mag_precision := (if mag r = None then 0 else mp),
              mag_err := (if mag r = None \<or> mv = None then PyNone else PyInt (- 1)),
              band := (if mag r = None then None else band r),
              comment := CStr []\<rparr>))"
proof -
  from Observation_from_string_Record [OF built] obtain l obs cm where
    len: "80 \<le> length l"
    and obs: "Observation_init X (PyStr (take 1 l)) (Some (take 11 (drop 1 l)))
             (PyStr (take 1 (drop 12 l))) (Some (take 1 (drop 13 l))) (Some (take 1 (drop 14 l)))
             (take 17 (drop 15 l)) (take 12 (drop 32 l)) (take 12 (drop 44 l))
             (Some (take 5 (drop 65 l))) (take 1 (drop 70 l)) (take 3 (drop 77 l)) = Inr obs"
    and at: "attach_comment obs cm = Inr r"
    by blast
  note p = Observation_init_parts [OF obs]
  note a = attach_comment_fields [OF at]
  note b = attach_comment_rest [OF at]
  have nu: "NullObservation_init (PyStr (take 1 l)) None = Inr (null_observation r)"
    using p(1) a by simp
  have nm: "provisional_name r = strip (take 11 (drop 1 l))" using p(2) a by simp
  have u1: "length (take 11 (drop 1 l)) \<le> 11" by simp
  have di: "constructor_state (discovery r)"
    by (rule b(4)) (rule Discovery_init_constructor_state [OF p(3)])
  have n1: "MPCNote_init (Some (take 1 (drop 13 l))) ''Note1'' = Inr (note1 r)"
    using p(4) a by simp
  have n2: "MPCNote_init (Some (take 1 (drop 14 l))) ''Note2'' = Inr (note2 r)"
    using p(5) a by simp
  have u3: "length (take 1 (drop 13 l)) \<le> 1" and u4: "length (take 1 (drop 14 l)) \<le> 1"
    by simp_all
  have bd: "band r = band_of (take 1 (drop 70 l))" using p(7) a by simp
  have oc: "length (observatory_code r) = 3" using p(8) a len by simp
  have rp3: "ra_precision r = 3" and dp2: "dec_precision r = 2" using p(9,10) b by simp_all
  have me: "mag_err r = (if mag r = None then PyNone else PyInt (- 1))"
    using p(6) a b(3) by simp
  have co1': "length (ra_format X (coordinate r) (ra_precision r)) \<le> 12"
    "length (dec_format X (coordinate r) (dec_precision r)) \<le> 12"
    using co1 by (simp_all add: rp3 dp2)
  have co2': "coordinate_of_pair X (ljust 12 (ra_format X (coordinate r) (ra_precision r)))
               (ljust 12 (dec_format X (coordinate r) (dec_precision r)))
             = Inr (coordinate r, rp, dp)"
    using co2 by (simp add: rp3 dp2)
  note rt = render_then_parse [OF nu nm u1 di n1 u3 n2 u4 bd oc nl ren tm1 tm2 tm3 co1' co2' mg2]
  have "\<lparr>null_observation = null_observation r,
          provisional_name = provisional_name r,
          discovery = discovery r, note1 = note1 r, note2 = note2 r, date = date r,
          date_precision = date_precision r, coordinate = coordinate r, ra_precision = 3,
          dec_precision = 2, mag = (if mag r = None then None else mv),
          mag_precision = (if mag r = None then 0 else mp),
          mag_err = (if (if mag r = None then None else mv) = None then PyNone else PyInt (- 1)),
          band = (if mag r = None then None else band r),
          observatory_code = observatory_code r, comment = CStr []\<rparr>
       = r\<lparr>mag := (if mag r = None then None else mv),
              mag_precision := (if mag r = None then 0 else mp),
              mag_err := (if mag r = None \<or> mv = None then PyNone else PyInt (- 1)),
              band := (if mag r = None then None else band r),
              comment := CStr []\<rparr>"
    using rp3 dp2 by (cases r) auto
  with rt show ?thesis by simp
qed

lemma example_record_renders:
  "Observation_str example_prims example_record = Inr rendered_line"
  "Observation_str example_prims rendered_record = Inr rendered_line"
  by code_simp+

lemma example_prims_renders:
  "length (Time_str example_prims example_time) \<le> 17"
  "Time_mpc example_prims (ljust 17 (Time_str example_prims example_time))
     (compute_precision (ljust 17 (Time_str example_prims example_time))) = Some example_time"
  "compute_precision (ljust 17 (Time_str example_prims example_time)) = 6"
  "length (ra_format example_prims example_coordinate 3) \<le> 12"
  "length (dec_format example_prims example_coordinate 2) \<le> 12"
  "coordinate_of_pair example_prims (ljust 12 (ra_format example_prims example_coordinate 3))
     (ljust 12 (dec_format example_prims example_coordinate 2)) = Inr (example_coordinate, 3, 2)"
  "mag_of example_prims (Some (ljust 5 (format_f example_prims 1 (2063 / 100))))
     = Inr (Some (206 / 10), 1)"
  "mag_of example_prims (Some (ljust 5 (format_f example_prims 1 (206 / 10))))
     = Inr (Some (206 / 10), 1)"
  by code_simp+

lemma example_record_codecs:
  assumes d: "date r = example_time" "date_precision r = 6"
    "coordinate r = example_coordinate" "mag r = Some v" "mag_precision r = 1"
    and v: "v = 2063 / 100 \<or> v = 206 / 10"
  shows "length (Time_str example_prims (date r)) \<le> 17"
    and "Time_mpc example_prims (ljust 17 (Time_str example_prims (date r)))
          (compute_precision (ljust 17 (Time_str example_prims (date r)))) = Some (date r)"
    and "compute_precision (ljust 17 (Time_str example_prims (date r))) = date_precision r"
    and "length (ra_format example_prims (coordinate r) 3) \<le> 12"
    and "length (dec_format example_prims (coordinate r) 2) \<le> 12"
    and "coordinate_of_pair example_prims (ljust 12 (ra_format example_prims (coordinate r) 3))
          (ljust 12 (dec_format example_prims (coordinate r) 2)) = Inr (coordinate r, 3, 2)"
    and "\<And>m. mag r = Some m \<Longrightarrow>
          mag_of example_prims (Some (ljust 5 (format_f example_prims (mag_precision r) m)))
            = Inr (Some (206 / 10), 1)"
proof -
  show "length (Time_str example_prims (date r)) \<le> 17"
    unfolding d by (rule example_prims_renders(1))
  show "Time_mpc example_prims (ljust 17 (Time_str example_prims (date r)))
          (compute_precision (ljust 17 (Time_str example_prims (date r)))) = Some (date r)"
    unfolding d by (rule example_prims_renders(2))
  show "compute_precision (ljust 17 (Time_str example_prims (date r))) = date_precision r"
    unfolding d by (rule example_prims_renders(3))
  show "length (ra_format example_prims (coordinate r) 3) \<le> 12"
    unfolding d by (rule example_prims_renders(4))
  show "length (dec_format example_prims (coordinate r) 2) \<le> 12"
    unfolding d by (rule example_prims_renders(5))
  show "coordinate_of_pair example_prims (ljust 12 (ra_format example_prims (coordinate r) 3))
          (ljust 12 (dec_format example_prims (coordinate r) 2)) = Inr (coordinate r, 3, 2)"
    unfolding d by (rule example_prims_renders(6))
  fix m assume "mag r = Some m"
  with d(4) have m: "m = v" by simp
  from v show "mag_of example_prims (Some (ljust 5 (format_f example_prims (mag_precision r) m)))
            = Inr (Some (206 / 10), 1)"
  proof
    assume "v = 2063 / 100"
    then show ?thesis unfolding d m by (simp only: example_prims_renders(7))
  next
    assume "v = 206 / 10"
    then show ?thesis unfolding d m by (simp only: example_prims_renders(8))
  qed
qed

lemma rendered_line_record:
  "Observation_from_string example_prims rendered_line = Inr (Record rendered_record)"
proof -
  have nl: "last (observatory_code example_record) \<noteq> CHR 0x0A"
    by (simp add: example_record_def)
  have d: "date example_record = example_time" "date_precision example_record = 6"
    "coordinate example_record = example_coordinate" "mag example_record = Some (2063 / 100)"
    "mag_precision example_record = 1"
    by (simp_all add: example_record_def)
  have v: "(2063 / 100 :: rat) = 2063 / 100 \<or> (2063 / 100 :: rat) = 206 / 10" by simp
  note c = example_record_codecs [OF d v]
  from built_render_then_parse [OF example_line_record nl example_record_renders(1) c]
  show ?thesis by (simp add: rendered_record_def example_record_def)
qed

lemma example_record_to_string:
  "Observation_to_string example_prims example_record = Inr rendered_line"
  "Observation_to_string example_prims rendered_record = Inr rendered_line"
  by code_simp+

text \<open>
  C2. The round trip loses the second decimal of the magnitude. The 80-column line
  \<open>example_line\<close>, with the magnitude \<open>20.63\<close> in its columns 66 to 70, parses to
  \<open>example_record\<close>, whose magnitude is 20.63 and whose magnitude precision is 1 (the
  setter keeps \<^verbatim>\<open>min(1, ...)\<close> decimals). \<^verbatim>\<open>__str__\<close> and \<^verbatim>\<open>to_string\<close> render it as
  \<open>rendered_line\<close>, with \<open>20.6\<close> and a blank in these columns: the rendering is not
  the line that was parsed. Parsing the rendering gives \<open>rendered_record\<close>, whose
  magnitude is 20.6: it is not the original in every field. Both records render as
  the same line, so \<^verbatim>\<open>==\<close> of the class, which compares the renderings, does not
  tell them apart.
\<close>

theorem magnitude_lost_in_round_trip:
  "Observation_from_string example_prims example_line = Inr (Record example_record)
   \<and> mag example_record = Some (2063 / 100)
   \<and> mag_precision example_record = 1
   \<and> Observation_str example_prims example_record = Inr rendered_line
   \<and> Observation_to_string example_prims example_record = Inr rendered_line
   \<and> rendered_line \<noteq> example_line
   \<and> Observation_from_string example_prims rendered_line = Inr (Record rendered_record)
   \<and> mag rendered_record = Some (206 / 10)
   \<and> rendered_record \<noteq> example_record
   \<and> Observation_to_string example_prims rendered_record = Inr rendered_line"
proof -
  have m: "mag example_record = Some (2063 / 100)" "mag rendered_record = Some (206 / 10)"
    "mag_precision example_record = 1"
    by (simp_all add: rendered_record_def example_record_def)
  from m(1,2) have ne: "rendered_record \<noteq> example_record" by auto
  have l: "rendered_line \<noteq> example_line" by (simp add: rendered_line_def example_line_def)
  from m ne l example_line_record example_record_renders(1) rendered_line_record
    example_record_to_string
  show ?thesis by simp
qed

end
